theory Spec2Isabelle
  imports Complex_Main "HOL-Library.Multiset"
begin

section \<open>Data model\<close>

text \<open>
  The detectors of \<^verbatim>\<open>api/algorithms\<close> read JSON-like dictionaries. A key that the code reads
  with \<^verbatim>\<open>d["k"]\<close> is a mandatory record field; a key read with \<^verbatim>\<open>d.get("k", default)\<close> is an
  optional field (\<open>None\<close> = key absent) whose default is applied where the source applies it.
  Python numbers are modelled as exact reals (integers where the source only ever produces
  integers), so rounding error of binary floating point is outside the model.
\<close>

datatype py_error = ValueError | TypeError | ZeroDivisionError

text \<open>
  A \<^verbatim>\<open>datetime\<close>: \<open>micros\<close> is its position in microseconds on the time line it lives on
  (wall clock for a naive value, UTC for an aware one); \<open>aware\<close> says whether it carries a
  time zone. Python refuses to subtract or compare a naive and an aware value.
\<close>

record datetime =
  micros :: int
  aware :: bool

text \<open>A timestamp field holds either an ISO string or an already built \<^verbatim>\<open>datetime\<close>.\<close>

datatype ts_value = TsStr string | TsDatetime datetime

record trade =
  trade_id :: string
  timestamp :: ts_value
  instrument :: string
  direction :: string
  volume :: real
  profit_loss :: "real option"

record client =
  client_id :: string
  name :: "string option"
  referred_by :: string
  signup_date :: "ts_value option"
  withdrawal_date :: "ts_value option"
  initial_deposit :: "real option"
  current_balance :: "real option"
  is_active :: "bool option"
  trades :: "trade list option"

record partner =
  partner_id :: string
  partner_name :: "string option"
  partner_type :: "string option"

section \<open>Shared helpers\<close>

text \<open>\<^verbatim>\<open>for x in xs: body\<close> where the body updates the loop state or raises.\<close>

fun fold_err :: "('a \<Rightarrow> 's \<Rightarrow> py_error + 's) \<Rightarrow> 'a list \<Rightarrow> 's \<Rightarrow> py_error + 's" where
  "fold_err f [] s = Inr s"
| "fold_err f (x # xs) s = (case f x s of Inl e \<Rightarrow> Inl e | Inr s' \<Rightarrow> fold_err f xs s')"

text \<open>\<^verbatim>\<open>ts.replace('Z', '+00:00')\<close>\<close>

definition replace_Z :: "string \<Rightarrow> string" where
  "replace_Z s = concat (map (\<lambda>c. if c = CHR ''Z'' then ''+00:00'' else [c]) s)"

text \<open>
  \<^verbatim>\<open>parse_timestamp\<close> of \<^verbatim>\<open>opposite_trading.py\<close> and \<^verbatim>\<open>mirror_trading.py\<close> (the two are the same
  text). The library function \<^verbatim>\<open>datetime.fromisoformat\<close> is the parameter \<open>fromiso\<close>; \<open>None\<close> is
  its \<^verbatim>\<open>ValueError\<close>, which this function does not catch.
\<close>

definition parse_timestamp :: "(string \<Rightarrow> datetime option) \<Rightarrow> ts_value \<Rightarrow> py_error + datetime" where
  "parse_timestamp fromiso ts =
     (case ts of
        TsDatetime d \<Rightarrow> Inr d
      | TsStr s \<Rightarrow> (case fromiso (replace_Z s) of None \<Rightarrow> Inl ValueError | Some d \<Rightarrow> Inr d))"

text \<open>\<^verbatim>\<open>a - b\<close> on datetimes: a timedelta, in microseconds.\<close>

definition sub_datetime :: "datetime \<Rightarrow> datetime \<Rightarrow> py_error + int" where
  "sub_datetime a b = (if aware a = aware b then Inr (micros a - micros b) else Inl TypeError)"

definition total_seconds :: "int \<Rightarrow> real" where
  "total_seconds td = real_of_int td / 1000000"

text \<open>\<^verbatim>\<open>timedelta.days\<close>: the normalised day count, rounded towards minus infinity.\<close>

definition days :: "int \<Rightarrow> int" where
  "days td = td div 86400000000"

text \<open>\<^verbatim>\<open>abs((t1 - t2).total_seconds())\<close>\<close>

definition abs_seconds_between :: "datetime \<Rightarrow> datetime \<Rightarrow> py_error + real" where
  "abs_seconds_between a b =
     (case sub_datetime a b of Inl e \<Rightarrow> Inl e | Inr td \<Rightarrow> Inr \<bar>total_seconds td\<bar>)"

text \<open>\<^verbatim>\<open>round(x, n)\<close>: to \<open>n\<close> decimals, ties to the even neighbour.\<close>

definition round_half_even :: "real \<Rightarrow> int" where
  "round_half_even x =
     (let f = \<lfloor>x\<rfloor>; d = x - of_int f
      in if d < 1 / 2 then f else if 1 / 2 < d then f + 1 else if even f then f else f + 1)"

definition py_round :: "real \<Rightarrow> nat \<Rightarrow> real" where
  "py_round x n = of_int (round_half_even (x * 10 ^ n)) / 10 ^ n"

text \<open>
  \<^verbatim>\<open>defaultdict(list)\<close> filled by \<^verbatim>\<open>partner_clients[client["referred_by"]].append(client)\<close>:
  keys stay in first-insertion order, as Python dictionaries keep them.
\<close>

fun group_append :: "string \<Rightarrow> client \<Rightarrow> (string \<times> client list) list \<Rightarrow> (string \<times> client list) list" where
  "group_append k c [] = [(k, [c])]"
| "group_append k c ((k', cs) # rest) =
     (if k = k' then (k', cs @ [c]) # rest else (k', cs) # group_append k c rest)"

definition group_by_partner :: "client list \<Rightarrow> (string \<times> client list) list" where
  "group_by_partner cs = foldl (\<lambda>m c. group_append (referred_by c) c m) [] cs"

text \<open>\<^verbatim>\<open>client.get("trades", [])\<close> and \<^verbatim>\<open>t.get("profit_loss", 0)\<close>\<close>

definition get_trades :: "client \<Rightarrow> trade list" where
  "get_trades c = (case trades c of None \<Rightarrow> [] | Some ts \<Rightarrow> ts)"

definition get_pnl :: "trade \<Rightarrow> real" where
  "get_pnl t = (case profit_loss t of None \<Rightarrow> 0 | Some p \<Rightarrow> p)"

text \<open>\<^verbatim>\<open>xs.sort(key=k, reverse=True)\<close>: stable, largest key first.\<close>

definition sort_desc :: "('a \<Rightarrow> real) \<Rightarrow> 'a list \<Rightarrow> 'a list" where
  "sort_desc k xs = rev (sort_key k (rev xs))"

section \<open>Opposite trading (\<^verbatim>\<open>opposite_trading.py\<close>)\<close>

definition calculate_timing_correlation ::
  "(string \<Rightarrow> datetime option) \<Rightarrow> trade list \<Rightarrow> trade list \<Rightarrow> real \<Rightarrow> py_error + real" where
  "calculate_timing_correlation fromiso trades1 trades2 time_window_minutes =
     (if trades1 = [] \<or> trades2 = [] then Inr 0
      else
        case fold_err
          (\<lambda>t1 st.
             case parse_timestamp fromiso (timestamp t1) of
               Inl e \<Rightarrow> Inl e
             | Inr t1_time \<Rightarrow>
                 fold_err
                   (\<lambda>t2 (correlations, total_comparisons).
                      case parse_timestamp fromiso (timestamp t2) of
                        Inl e \<Rightarrow> Inl e
                      | Inr t2_time \<Rightarrow>
                          if instrument t1 = instrument t2 then
                            (case abs_seconds_between t1_time t2_time of
                               Inl e \<Rightarrow> Inl e
                             | Inr secs \<Rightarrow>
                                 let time_diff = secs / 60 in
                                 if time_diff \<le> time_window_minutes then
                                   (if time_window_minutes = 0 then Inl ZeroDivisionError
                                    else Inr (correlations + (1 - time_diff / time_window_minutes),
                                              total_comparisons + 1))
                                 else Inr (correlations, total_comparisons + 1))
                          else Inr (correlations, total_comparisons))
                   trades2 st)
          trades1 (0, 0 :: nat)
        of
          Inl e \<Rightarrow> Inl e
        | Inr (correlations, total_comparisons) \<Rightarrow>
            if total_comparisons = 0 then Inr 0
            else Inr (min 1 (correlations / real total_comparisons)))"

record opposite_pair =
  pair_trade1 :: trade
  pair_trade2 :: trade
  pair_instrument :: string
  time_diff_seconds :: real
  volume_similarity :: real

definition detect_opposite_directions ::
  "(string \<Rightarrow> datetime option) \<Rightarrow> trade list \<Rightarrow> trade list \<Rightarrow> real \<Rightarrow> py_error + opposite_pair list" where
  "detect_opposite_directions fromiso trades1 trades2 time_window_minutes =
     fold_err
       (\<lambda>t1 pairs.
          case parse_timestamp fromiso (timestamp t1) of
            Inl e \<Rightarrow> Inl e
          | Inr t1_time \<Rightarrow>
              fold_err
                (\<lambda>t2 opposite_pairs.
                   case parse_timestamp fromiso (timestamp t2) of
                     Inl e \<Rightarrow> Inl e
                   | Inr t2_time \<Rightarrow>
                       if instrument t1 = instrument t2 \<and> direction t1 \<noteq> direction t2 then
                         (case abs_seconds_between t1_time t2_time of
                            Inl e \<Rightarrow> Inl e
                          | Inr secs \<Rightarrow>
                              if secs / 60 \<le> time_window_minutes then
                                (if max (volume t1) (volume t2) = 0 then Inl ZeroDivisionError
                                 else Inr (opposite_pairs @
                                   [\<lparr>pair_trade1 = t1, pair_trade2 = t2, pair_instrument = instrument t1,
                                     time_diff_seconds = secs,
                                     volume_similarity =
                                       min (volume t1) (volume t2) / max (volume t1) (volume t2)\<rparr>]))
                              else Inr opposite_pairs)
                       else Inr opposite_pairs)
                trades2 pairs)
       trades1 []"

definition calculate_pnl_correlation :: "trade list \<Rightarrow> trade list \<Rightarrow> real" where
  "calculate_pnl_correlation trades1 trades2 =
     (if length trades1 < 2 \<or> length trades2 < 2 then 0
      else
        let min_len = min (length trades1) (length trades2);
            pnl1 = take min_len (map get_pnl trades1);
            pnl2 = take min_len (map get_pnl trades2);
            mean1 = sum_list pnl1 / real (length pnl1);
            mean2 = sum_list pnl2 / real (length pnl2);
            numerator = sum_list (map (\<lambda>(a, b). (a - mean1) * (b - mean2)) (zip pnl1 pnl2));
            var1 = sum_list (map (\<lambda>a. (a - mean1) ^ 2) pnl1);
            var2 = sum_list (map (\<lambda>b. (b - mean2) ^ 2) pnl2);
            denominator = sqrt (var1 * var2)
        in if denominator = 0 then 0 else numerator / denominator)"

text \<open>
  The evidence summary is kept as the list of its sentences, each with the values it prints;
  the instrument sentence joins a Python \<^verbatim>\<open>set\<close>, whose order is not fixed, so it is a set here.
\<close>

datatype opposite_evidence =
    DetectedOpposite nat string string
  | TimingHighlyCorrelated real
  | TimingModerate real
  | InversePnl real
  | ConcentratedIn "string set"

definition display_name :: "client \<Rightarrow> string" where
  "display_name c = (case name c of None \<Rightarrow> client_id c | Some n \<Rightarrow> n)"

definition generate_evidence_summary ::
  "client \<Rightarrow> client \<Rightarrow> opposite_pair list \<Rightarrow> real \<Rightarrow> real \<Rightarrow> opposite_evidence list" where
  "generate_evidence_summary client1 client2 opposite_pairs timing_corr pnl_corr =
     [DetectedOpposite (length opposite_pairs) (display_name client1) (display_name client2)]
     @ (if timing_corr > 0.7 then [TimingHighlyCorrelated timing_corr]
        else if timing_corr > 0.4 then [TimingModerate timing_corr] else [])
     @ (if pnl_corr < - 0.5 then [InversePnl pnl_corr] else [])
     @ (if opposite_pairs \<noteq> [] then [ConcentratedIn (set (map pair_instrument opposite_pairs))]
        else [])"

record opposite_scheme =
  partner_a :: string
  partner_b :: string
  client_a :: string
  client_b :: string
  client_a_name :: string
  client_b_name :: string
  confidence_score :: real
  timing_correlation :: real
  opposite_trade_ratio :: real
  pnl_correlation :: real
  num_opposite_pairs :: nat
  total_trades_analyzed :: nat
  estimated_fraud_value :: real
  evidence_summary :: "opposite_evidence list"
  top_opposite_pairs :: "opposite_pair list"

definition name_or_unknown :: "string option \<Rightarrow> string" where
  "name_or_unknown n = (case n of None \<Rightarrow> ''Unknown'' | Some s \<Rightarrow> s)"

text \<open>The three metrics of one client pair and their weighted sum (source lines 163-175).\<close>

definition opposite_ratio_of :: "opposite_pair list \<Rightarrow> trade list \<Rightarrow> trade list \<Rightarrow> real" where
  "opposite_ratio_of opposite_pairs trades1 trades2 =
     (if min (length trades1) (length trades2) > 0
      then real (length opposite_pairs) / real (min (length trades1) (length trades2)) else 0)"

definition suspicion_score_of :: "real \<Rightarrow> real \<Rightarrow> real \<Rightarrow> real" where
  "suspicion_score_of timing_corr opposite_ratio pnl_corr =
     timing_corr * 0.3 + opposite_ratio * 0.4 + max 0 (- pnl_corr) * 0.3"

text \<open>The body of the innermost loop of \<^verbatim>\<open>detect_opposite_trading\<close> for one client pair.\<close>

definition compare_clients ::
  "(string \<Rightarrow> datetime option) \<Rightarrow> real \<Rightarrow> string \<Rightarrow> string \<Rightarrow> client \<Rightarrow> client
     \<Rightarrow> opposite_scheme list \<Rightarrow> py_error + opposite_scheme list" where
  "compare_clients fromiso threshold partner1 partner2 client1 client2 detected_schemes =
     (let trades1 = get_trades client1; trades2 = get_trades client2 in
      case calculate_timing_correlation fromiso trades1 trades2 10 of
        Inl e \<Rightarrow> Inl e
      | Inr timing_corr \<Rightarrow>
        (case detect_opposite_directions fromiso trades1 trades2 10 of
           Inl e \<Rightarrow> Inl e
         | Inr opposite_pairs \<Rightarrow>
            let pnl_corr = calculate_pnl_correlation trades1 trades2;
                opposite_ratio = opposite_ratio_of opposite_pairs trades1 trades2;
                suspicion_score = suspicion_score_of timing_corr opposite_ratio pnl_corr
            in if suspicion_score \<ge> threshold then
                 let avg_profit = \<bar>sum_list (map get_pnl trades1)\<bar> + \<bar>sum_list (map get_pnl trades2)\<bar>
                 in Inr (detected_schemes @
                   [\<lparr>partner_a = partner1, partner_b = partner2,
                     client_a = client_id client1, client_b = client_id client2,
                     client_a_name = name_or_unknown (name client1),
                     client_b_name = name_or_unknown (name client2),
                     confidence_score = py_round suspicion_score 3,
                     timing_correlation = py_round timing_corr 3,
                     opposite_trade_ratio = py_round opposite_ratio 3,
                     pnl_correlation = py_round pnl_corr 3,
                     num_opposite_pairs = length opposite_pairs,
                     total_trades_analyzed = length trades1 + length trades2,
                     estimated_fraud_value = py_round (avg_profit * 0.5) 2,
                     evidence_summary =
                       generate_evidence_summary client1 client2 opposite_pairs timing_corr pnl_corr,
                     top_opposite_pairs = take 5 opposite_pairs\<rparr>])
               else Inr detected_schemes))"

text \<open>
  \<^verbatim>\<open>for i, partner1 in enumerate(partners): for partner2 in partners[i+1:]: ...\<close>: every
  partner group against every later one; clients without trades are skipped.
\<close>

fun scan_partners ::
  "(string \<Rightarrow> datetime option) \<Rightarrow> real \<Rightarrow> (string \<times> client list) list
     \<Rightarrow> opposite_scheme list \<Rightarrow> py_error + opposite_scheme list" where
  "scan_partners fromiso threshold [] detected_schemes = Inr detected_schemes"
| "scan_partners fromiso threshold ((partner1, clients1) # later) detected_schemes =
     (case fold_err
        (\<lambda>(partner2, clients2).
           fold_err
             (\<lambda>client1 found.
                if get_trades client1 = [] then Inr found
                else fold_err
                  (\<lambda>client2 found'.
                     if get_trades client2 = [] then Inr found'
                     else compare_clients fromiso threshold partner1 partner2 client1 client2 found')
                  clients2 found)
             clients1)
        later detected_schemes
      of Inl e \<Rightarrow> Inl e
       | Inr found \<Rightarrow> scan_partners fromiso threshold later found)"

definition detect_opposite_trading ::
  "(string \<Rightarrow> datetime option) \<Rightarrow> client list \<Rightarrow> real \<Rightarrow> py_error + opposite_scheme list" where
  "detect_opposite_trading fromiso clients threshold =
     (case scan_partners fromiso threshold (group_by_partner clients) [] of
        Inl e \<Rightarrow> Inl e
      | Inr detected_schemes \<Rightarrow> Inr (sort_desc confidence_score detected_schemes))"

section \<open>Mirror trading (\<^verbatim>\<open>mirror_trading.py\<close>)\<close>

definition calculate_trade_similarity ::
  "(string \<Rightarrow> datetime option) \<Rightarrow> trade \<Rightarrow> trade \<Rightarrow> real \<Rightarrow> py_error + real" where
  "calculate_trade_similarity fromiso tr1 tr2 time_window_minutes =
     (let score0 = (if instrument tr1 = instrument tr2 then 1 else 0);
          score1 = score0 + (if direction tr1 = direction tr2 then 1 else 0)
      in if max (volume tr1) (volume tr2) = 0 then Inl ZeroDivisionError
         else
           let vol_ratio = min (volume tr1) (volume tr2) / max (volume tr1) (volume tr2);
               score2 = score1 + (if vol_ratio \<ge> 0.8 then 1 else if vol_ratio \<ge> 0.5 then 0.5 else 0)
           in case parse_timestamp fromiso (timestamp tr1) of
                Inl e \<Rightarrow> Inl e
              | Inr t1 \<Rightarrow>
                 (case parse_timestamp fromiso (timestamp tr2) of
                    Inl e \<Rightarrow> Inl e
                  | Inr t2 \<Rightarrow>
                     (case abs_seconds_between t1 t2 of
                        Inl e \<Rightarrow> Inl e
                      | Inr secs \<Rightarrow>
                          let time_diff_minutes = secs / 60 in
                          if time_diff_minutes \<le> time_window_minutes then
                            (if time_window_minutes = 0 then Inl ZeroDivisionError
                             else Inr ((score2 + (1 - time_diff_minutes / time_window_minutes)) / 4))
                          else Inr (score2 / 4))))"

record trade_match =
  match_trade1 :: trade
  match_trade2 :: trade
  match_similarity :: real
  match_instrument :: string
  match_direction :: string

text \<open>
  The inner loop of \<^verbatim>\<open>find_matching_trades\<close>: the best still unused trade of \<open>trades2\<close> for
  \<open>t1\<close>. The state is \<^verbatim>\<open>(best_match, best_similarity, best_idx)\<close>; \<open>best_unused_step\<close> is the
  loop body for the enumerated trade \<^verbatim>\<open>(idx, t2)\<close>.
\<close>

definition best_unused_step ::
  "(string \<Rightarrow> datetime option) \<Rightarrow> real \<Rightarrow> int set \<Rightarrow> trade \<Rightarrow> int \<times> trade
     \<Rightarrow> trade option \<times> real \<times> int \<Rightarrow> py_error + (trade option \<times> real \<times> int)" where
  "best_unused_step fromiso time_window_minutes used_indices t1 entry best =
     (let idx = fst entry; t2 = snd entry; best_similarity = fst (snd best) in
      if idx \<in> used_indices then Inr best
      else
        case calculate_trade_similarity fromiso t1 t2 time_window_minutes of
          Inl e \<Rightarrow> Inl e
        | Inr sim \<Rightarrow> if sim > best_similarity then Inr (Some t2, sim, idx) else Inr best)"

definition best_unused ::
  "(string \<Rightarrow> datetime option) \<Rightarrow> real \<Rightarrow> real \<Rightarrow> int set \<Rightarrow> trade \<Rightarrow> trade list
     \<Rightarrow> py_error + (trade option \<times> real \<times> int)" where
  "best_unused fromiso time_window_minutes min_similarity used_indices t1 trades2 =
     fold_err (best_unused_step fromiso time_window_minutes used_indices t1)
       (zip (map int [0..<length trades2]) trades2)
       (None, min_similarity, - 1)"

text \<open>The outer loop, with its state \<^verbatim>\<open>(matches, used_indices)\<close>, and its body \<open>match_step\<close>.\<close>

definition match_step ::
  "(string \<Rightarrow> datetime option) \<Rightarrow> trade list \<Rightarrow> real \<Rightarrow> real \<Rightarrow> trade
     \<Rightarrow> trade_match list \<times> int set \<Rightarrow> py_error + (trade_match list \<times> int set)" where
  "match_step fromiso trades2 time_window_minutes min_similarity t1 st =
     (let matches = fst st; used_indices = snd st in
      case best_unused fromiso time_window_minutes min_similarity used_indices t1 trades2 of
        Inl e \<Rightarrow> Inl e
      | Inr (best_match, best_similarity, best_idx) \<Rightarrow>
          (case best_match of
             Some t2 \<Rightarrow>
               if best_idx \<ge> 0 then
                 Inr (matches @
                        [\<lparr>match_trade1 = t1, match_trade2 = t2, match_similarity = best_similarity,
                          match_instrument = instrument t1, match_direction = direction t1\<rparr>],
                      insert best_idx used_indices)
               else Inr st
           | None \<Rightarrow> Inr st))"

definition match_loop ::
  "(string \<Rightarrow> datetime option) \<Rightarrow> trade list \<Rightarrow> trade list \<Rightarrow> real \<Rightarrow> real
     \<Rightarrow> py_error + (trade_match list \<times> int set)" where
  "match_loop fromiso trades1 trades2 time_window_minutes min_similarity =
     fold_err (match_step fromiso trades2 time_window_minutes min_similarity) trades1 ([], {})"

definition find_matching_trades ::
  "(string \<Rightarrow> datetime option) \<Rightarrow> trade list \<Rightarrow> trade list \<Rightarrow> real \<Rightarrow> real
     \<Rightarrow> py_error + trade_match list" where
  "find_matching_trades fromiso trades1 trades2 time_window_minutes min_similarity =
     (case match_loop fromiso trades1 trades2 time_window_minutes min_similarity of
        Inl e \<Rightarrow> Inl e
      | Inr (matches, used_indices) \<Rightarrow> Inr matches)"

text \<open>One cell of the similarity matrix (source lines 120-124), with the default arguments.\<close>

definition match_ratio_of ::
  "(string \<Rightarrow> datetime option) \<Rightarrow> trade list \<Rightarrow> trade list \<Rightarrow> py_error + real" where
  "match_ratio_of fromiso trades1 trades2 =
     (case find_matching_trades fromiso trades1 trades2 5 0.7 of
        Inl e \<Rightarrow> Inl e
      | Inr matches \<Rightarrow>
          Inr (if min (length trades1) (length trades2) > 0
               then real (length matches) / real (min (length trades1) (length trades2)) else 0))"

text \<open>
  The body of the matrix loops for the cell pair \<open>(i, j)\<close> with \<open>i < j < n\<close>:
  \<^verbatim>\<open>similarity_matrix[i][j] = match_ratio; similarity_matrix[j][i] = match_ratio\<close>.
\<close>

definition set_cells ::
  "(string \<Rightarrow> datetime option) \<Rightarrow> client list \<Rightarrow> nat \<Rightarrow> nat \<Rightarrow> real list list
     \<Rightarrow> py_error + real list list" where
  "set_cells fromiso partner_client_list i j similarity_matrix =
     (case match_ratio_of fromiso (get_trades (partner_client_list ! i))
             (get_trades (partner_client_list ! j)) of
        Inl e \<Rightarrow> Inl e
      | Inr match_ratio \<Rightarrow>
          let m1 = similarity_matrix[i := (similarity_matrix ! i)[j := match_ratio]]
          in Inr (m1[j := (m1 ! j)[i := match_ratio]]))"

definition build_similarity_matrix ::
  "(string \<Rightarrow> datetime option) \<Rightarrow> client list \<Rightarrow> py_error + real list list" where
  "build_similarity_matrix fromiso partner_client_list =
     (let n = length partner_client_list in
      fold_err (\<lambda>i. fold_err (set_cells fromiso partner_client_list i) [i + 1..<n])
        [0..<n] (replicate n (replicate n 0)))"

text \<open>The cluster grown from index \<open>i\<close> (source lines 137-149).\<close>

definition grow_step :: "real list list \<Rightarrow> real \<Rightarrow> nat set \<Rightarrow> nat list \<Rightarrow> nat \<Rightarrow> nat list" where
  "grow_step similarity_matrix min_mirror_ratio clustered cluster j =
     (if j \<in> clustered then cluster
      else if list_all (\<lambda>k. similarity_matrix ! j ! k \<ge> min_mirror_ratio) cluster
           then cluster @ [j] else cluster)"

definition grow_cluster :: "real list list \<Rightarrow> real \<Rightarrow> nat set \<Rightarrow> nat \<Rightarrow> nat \<Rightarrow> nat list" where
  "grow_cluster similarity_matrix min_mirror_ratio clustered i n =
     foldl (grow_step similarity_matrix min_mirror_ratio clustered) [i] [i + 1..<n]"

text \<open>
  \<^verbatim>\<open>instrument_counts\<close>: a \<^verbatim>\<open>defaultdict(int)\<close> in first-insertion order, then the three most
  frequent instruments by a stable sort on the negated count.
\<close>

fun count_instrument :: "string \<Rightarrow> (string \<times> nat) list \<Rightarrow> (string \<times> nat) list" where
  "count_instrument k [] = [(k, 1)]"
| "count_instrument k ((k', c) # rest) =
     (if k = k' then (k', c + 1) # rest else (k', c) # count_instrument k rest)"

definition top_instruments_of :: "trade list \<Rightarrow> (string \<times> nat) list" where
  "top_instruments_of all_trades =
     take 3 (sort_key (\<lambda>(inst, c). - int c)
               (foldl (\<lambda>counts t. count_instrument (instrument t) counts) [] all_trades))"

datatype mirror_evidence =
    DetectedLockstep nat
  | CombinedTrades nat
  | ConcentratedTrading "string list"
  | SignedUpWithin int

text \<open>
  \<^verbatim>\<open>generate_mirror_evidence\<close>. A signup date that does not parse is dropped by the
  \<^verbatim>\<open>try/except\<close>; \<^verbatim>\<open>max\<close> and \<^verbatim>\<open>min\<close> stand outside it and raise on a mix of naive and aware dates.
\<close>

definition parsed_signup_dates :: "(string \<Rightarrow> datetime option) \<Rightarrow> client list \<Rightarrow> datetime list" where
  "parsed_signup_dates fromiso cs =
     concat (map (\<lambda>c. case parse_timestamp fromiso
                              (case signup_date c of None \<Rightarrow> TsStr [] | Some ts \<Rightarrow> ts) of
                         Inl e \<Rightarrow> [] | Inr d \<Rightarrow> [d]) cs)"

definition generate_mirror_evidence ::
  "(string \<Rightarrow> datetime option) \<Rightarrow> client list \<Rightarrow> (string \<times> nat) list \<Rightarrow> py_error + mirror_evidence list" where
  "generate_mirror_evidence fromiso cs top_instruments =
     (let parts = [DetectedLockstep (length cs),
                   CombinedTrades (sum_list (map (\<lambda>c. length (get_trades c)) cs))]
                  @ (if top_instruments \<noteq> [] then [ConcentratedTrading (map fst top_instruments)] else []);
          signup_dates = parsed_signup_dates fromiso cs
      in if length signup_dates \<ge> 2 then
           (if \<not> list_all (\<lambda>d. aware d = aware (hd signup_dates)) signup_dates then Inl TypeError
            else
              let hi = fold max (map micros signup_dates) (micros (hd signup_dates));
                  lo = fold min (map micros signup_dates) (micros (hd signup_dates));
                  date_range = days (hi - lo)
              in Inr (parts @ (if date_range \<le> 7 then [SignedUpWithin date_range] else [])))
         else Inr parts)"

record mirror_group =
  group_partner_id :: string
  group_size :: nat
  client_ids :: "string list"
  client_names :: "string list"
  group_confidence_score :: real
  total_trades :: nat
  common_instruments :: "string list"
  group_estimated_fraud_value :: real
  group_evidence_summary :: "mirror_evidence list"

text \<open>The similarities of all member pairs of a cluster, in the order the source sums them.\<close>

definition cluster_pair_similarities :: "real list list \<Rightarrow> nat list \<Rightarrow> real list" where
  "cluster_pair_similarities similarity_matrix cluster =
     concat (map (\<lambda>i. map (\<lambda>j. similarity_matrix ! (cluster ! i) ! (cluster ! j))
                          [i + 1..<length cluster])
                 [0..<length cluster])"

definition cluster_confidence :: "real list list \<Rightarrow> nat list \<Rightarrow> real" where
  "cluster_confidence similarity_matrix cluster =
     py_round (sum_list (cluster_pair_similarities similarity_matrix cluster)
               / max 1 (real (length cluster * (length cluster - 1)) / 2)) 3"

text \<open>The finding appended for a cluster that is large enough (source lines 152-185).\<close>

definition make_group ::
  "(string \<Rightarrow> datetime option) \<Rightarrow> string \<Rightarrow> client list \<Rightarrow> real list list \<Rightarrow> nat list
     \<Rightarrow> py_error + mirror_group" where
  "make_group fromiso pid partner_client_list similarity_matrix cluster =
     (let cluster_clients = map (\<lambda>idx. partner_client_list ! idx) cluster;
          all_trades = concat (map get_trades cluster_clients);
          top_instruments = top_instruments_of all_trades
      in case generate_mirror_evidence fromiso cluster_clients top_instruments of
           Inl e \<Rightarrow> Inl e
         | Inr evidence \<Rightarrow>
             Inr \<lparr>group_partner_id = pid,
                  group_size = length cluster,
                  client_ids = map client_id cluster_clients,
                  client_names = map (\<lambda>c. name_or_unknown (name c)) cluster_clients,
                  group_confidence_score = cluster_confidence similarity_matrix cluster,
                  total_trades = length all_trades,
                  common_instruments = map fst top_instruments,
                  group_estimated_fraud_value =
                    py_round (sum_list (map (\<lambda>t. \<bar>get_pnl t\<bar>) all_trades) * 0.3) 2,
                  group_evidence_summary = evidence\<rparr>)"

text \<open>
  The clustering loop over one partner's clients, with its state \<^verbatim>\<open>(groups, clustered)\<close>
  (source lines 131-187).
\<close>

definition cluster_step ::
  "(string \<Rightarrow> datetime option) \<Rightarrow> nat \<Rightarrow> real \<Rightarrow> string \<Rightarrow> client list \<Rightarrow> real list list
     \<Rightarrow> nat \<Rightarrow> mirror_group list \<times> nat set \<Rightarrow> py_error + (mirror_group list \<times> nat set)" where
  "cluster_step fromiso min_group_size min_mirror_ratio pid partner_client_list similarity_matrix i st =
     (let groups = fst st; clustered = snd st in
      if i \<in> clustered then Inr st
      else
        let cluster = grow_cluster similarity_matrix min_mirror_ratio clustered i
                        (length partner_client_list) in
        if length cluster \<ge> min_group_size then
          (case make_group fromiso pid partner_client_list similarity_matrix cluster of
             Inl e \<Rightarrow> Inl e
           | Inr g \<Rightarrow> Inr (groups @ [g], clustered \<union> set cluster))
        else Inr st)"

definition cluster_loop ::
  "(string \<Rightarrow> datetime option) \<Rightarrow> nat \<Rightarrow> real \<Rightarrow> string \<Rightarrow> client list \<Rightarrow> real list list
     \<Rightarrow> mirror_group list \<Rightarrow> py_error + (mirror_group list \<times> nat set)" where
  "cluster_loop fromiso min_group_size min_mirror_ratio pid partner_client_list similarity_matrix groups0 =
     fold_err
       (cluster_step fromiso min_group_size min_mirror_ratio pid partner_client_list similarity_matrix)
       [0..<length partner_client_list] (groups0, {})"

text \<open>The body of \<^verbatim>\<open>for partner_id, partner_client_list in partner_clients.items()\<close>.\<close>

definition analyze_partner_group ::
  "(string \<Rightarrow> datetime option) \<Rightarrow> nat \<Rightarrow> real \<Rightarrow> string \<times> client list
     \<Rightarrow> mirror_group list \<Rightarrow> py_error + mirror_group list" where
  "analyze_partner_group fromiso min_group_size min_mirror_ratio entry groups =
     (let pid = fst entry; partner_client_list = snd entry in
      if length partner_client_list < min_group_size then Inr groups
      else
        case build_similarity_matrix fromiso partner_client_list of
          Inl e \<Rightarrow> Inl e
        | Inr similarity_matrix \<Rightarrow>
            (case cluster_loop fromiso min_group_size min_mirror_ratio pid partner_client_list
                    similarity_matrix groups of
               Inl e \<Rightarrow> Inl e
             | Inr (groups', clustered) \<Rightarrow> Inr groups'))"

definition detect_mirror_group ::
  "(string \<Rightarrow> datetime option) \<Rightarrow> client list \<Rightarrow> nat \<Rightarrow> real \<Rightarrow> py_error + mirror_group list" where
  "detect_mirror_group fromiso clients min_group_size min_mirror_ratio =
     (let active_clients = filter (\<lambda>c. length (get_trades c) \<ge> 10) clients in
      case fold_err (analyze_partner_group fromiso min_group_size min_mirror_ratio)
             (group_by_partner active_clients) [] of
        Inl e \<Rightarrow> Inl e
      | Inr groups \<Rightarrow> Inr (sort_desc group_confidence_score groups))"

section \<open>Bonus abuse (\<^verbatim>\<open>bonus_abuse.py\<close>)\<close>

text \<open>
  \<^verbatim>\<open>parse_timestamp\<close> of \<^verbatim>\<open>bonus_abuse.py\<close>: a string that does not parse yields
  \<^verbatim>\<open>datetime.now()\<close>. The clock reading is the parameter \<open>now\<close> (one reading for a run).
\<close>

definition parse_timestamp_bonus :: "datetime \<Rightarrow> (string \<Rightarrow> datetime option) \<Rightarrow> ts_value \<Rightarrow> datetime" where
  "parse_timestamp_bonus now fromiso ts =
     (case ts of
        TsDatetime d \<Rightarrow> d
      | TsStr s \<Rightarrow> (case fromiso (replace_Z s) of None \<Rightarrow> now | Some d \<Rightarrow> d))"

text \<open>Python truth value of a date field: \<^verbatim>\<open>None\<close> and the empty string are false.\<close>

definition truthy :: "ts_value option \<Rightarrow> bool" where
  "truthy v = (case v of None \<Rightarrow> False | Some (TsStr s) \<Rightarrow> s \<noteq> [] | Some (TsDatetime d) \<Rightarrow> True)"

definition get_deposit :: "client \<Rightarrow> real" where
  "get_deposit c = (case initial_deposit c of None \<Rightarrow> 0 | Some d \<Rightarrow> d)"

definition get_balance :: "client \<Rightarrow> real" where
  "get_balance c = (case current_balance c of None \<Rightarrow> 0 | Some b \<Rightarrow> b)"

text \<open>\<^verbatim>\<open>c.get("is_active", default)\<close>\<close>

definition get_is_active :: "client \<Rightarrow> bool \<Rightarrow> bool" where
  "get_is_active c dflt = (case is_active c of None \<Rightarrow> dflt | Some a \<Rightarrow> a)"

text \<open>
  \<^verbatim>\<open>(withdrawal - signup).days\<close> inside the \<^verbatim>\<open>try\<close> of check 3; \<open>None\<close> when the check is
  skipped (a date missing or empty) or the subtraction raises and the \<^verbatim>\<open>except\<close> swallows it.
\<close>

definition days_to_withdrawal :: "datetime \<Rightarrow> (string \<Rightarrow> datetime option) \<Rightarrow> client \<Rightarrow> int option" where
  "days_to_withdrawal now fromiso c =
     (if truthy (withdrawal_date c) \<and> truthy (signup_date c) then
        (case (signup_date c, withdrawal_date c) of
           (Some sd, Some wd) \<Rightarrow>
             (let signup = parse_timestamp_bonus now fromiso sd;
                  withdrawal = parse_timestamp_bonus now fromiso wd
              in case sub_datetime withdrawal signup of
                   Inl e \<Rightarrow> None
                 | Inr td \<Rightarrow> Some (days td))
         | _ \<Rightarrow> None)
      else None)"

text \<open>The six checks of \<^verbatim>\<open>calculate_client_quality_score\<close>, each on the state \<^verbatim>\<open>(score, flags)\<close>.\<close>

definition check_num_trades :: "nat \<Rightarrow> int \<times> string list \<Rightarrow> int \<times> string list" where
  "check_num_trades num_trades st =
     (case st of (score, flags) \<Rightarrow>
        if num_trades = 0 then (score - 40, flags @ [''no_trading_activity''])
        else if num_trades < 5 then (score - 25, flags @ [''minimal_trading''])
        else if num_trades < 10 then (score - 10, flags @ [''low_trading_volume''])
        else (score, flags))"

definition check_volume_ratio :: "trade list \<Rightarrow> real \<Rightarrow> int \<times> string list \<Rightarrow> int \<times> string list" where
  "check_volume_ratio ts deposit st =
     (case st of (score, flags) \<Rightarrow>
        if ts \<noteq> [] \<and> deposit > 0 then
          (let total_volume = sum_list (map volume ts);
               volume_ratio = total_volume / deposit
           in if volume_ratio < 0.1 then (score - 20, flags @ [''very_low_volume_ratio''])
              else if volume_ratio < 0.5 then (score - 10, flags @ [''low_volume_ratio''])
              else (score, flags))
        else (score, flags))"

definition check_quick_withdrawal :: "int option \<Rightarrow> int \<times> string list \<Rightarrow> int \<times> string list" where
  "check_quick_withdrawal dtw st =
     (case st of (score, flags) \<Rightarrow>
        (case dtw of
           None \<Rightarrow> (score, flags)
         | Some d \<Rightarrow>
             if d \<le> 3 then (score - 30, flags @ [''immediate_withdrawal''])
             else if d \<le> 7 then (score - 15, flags @ [''quick_withdrawal''])
             else (score, flags)))"

definition check_balance_ratio :: "real \<Rightarrow> real \<Rightarrow> int \<times> string list \<Rightarrow> int \<times> string list" where
  "check_balance_ratio deposit balance st =
     (case st of (score, flags) \<Rightarrow>
        if deposit > 0 then
          (let balance_ratio = balance / deposit
           in if balance_ratio < 0.2 then (score - 15, flags @ [''most_funds_withdrawn''])
              else if balance_ratio < 0.5 then (score - 5, flags @ [''significant_withdrawal''])
              else (score, flags))
        else (score, flags))"

definition check_activity :: "bool \<Rightarrow> int \<times> string list \<Rightarrow> int \<times> string list" where
  "check_activity active st =
     (case st of (score, flags) \<Rightarrow>
        if \<not> active then (score - 10, flags @ [''inactive_account'']) else (score, flags))"

definition check_deposit :: "real \<Rightarrow> int \<times> string list \<Rightarrow> int \<times> string list" where
  "check_deposit deposit st =
     (case st of (score, flags) \<Rightarrow>
        if deposit < 200 then (score - 10, flags @ [''minimal_deposit'']) else (score, flags))"

record quality_metrics =
  m_num_trades :: nat
  m_initial_deposit :: real
  m_current_balance :: real
  m_is_active :: bool

record quality =
  q_client_id :: string
  quality_score :: int
  is_suspicious :: bool
  flags_of :: "string list"
  metrics :: quality_metrics

definition calculate_client_quality_score ::
  "datetime \<Rightarrow> (string \<Rightarrow> datetime option) \<Rightarrow> client \<Rightarrow> quality" where
  "calculate_client_quality_score now fromiso c =
     (let ts = get_trades c;
          deposit = get_deposit c;
          balance = get_balance c;
          active = get_is_active c True;
          num_trades = length ts;
          st1 = check_num_trades num_trades (100, []);
          st2 = check_volume_ratio ts deposit st1;
          st3 = check_quick_withdrawal (days_to_withdrawal now fromiso c) st2;
          st4 = check_balance_ratio deposit balance st3;
          st5 = check_activity active st4;
          st6 = check_deposit deposit st5
      in \<lparr>q_client_id = client_id c,
          quality_score = max 0 (fst st6),
          is_suspicious = (fst st6 < 50),
          flags_of = snd st6,
          metrics = \<lparr>m_num_trades = num_trades, m_initial_deposit = deposit,
                      m_current_balance = balance, m_is_active = active\<rparr>\<rparr>)"

datatype abuse_evidence =
    NoTradingActivity
  | OnlyTradesExecuted nat
  | WithdrawnWithinThreeDays
  | WithdrawnFirstWeek
  | PercentWithdrawn real
  | SmallInitialDeposit real
  | AccountInactive
  | MultipleIndicators

definition generate_abuse_evidence :: "client \<Rightarrow> quality \<Rightarrow> abuse_evidence list" where
  "generate_abuse_evidence c q =
     (let flags = flags_of q;
          parts =
            (if ''no_trading_activity'' \<in> set flags then [NoTradingActivity]
             else if ''minimal_trading'' \<in> set flags then [OnlyTradesExecuted (m_num_trades (metrics q))]
             else [])
            @ (if ''immediate_withdrawal'' \<in> set flags then [WithdrawnWithinThreeDays]
               else if ''quick_withdrawal'' \<in> set flags then [WithdrawnFirstWeek] else [])
            @ (if ''most_funds_withdrawn'' \<in> set flags
               then [PercentWithdrawn
                       ((1 - m_current_balance (metrics q) / max 1 (m_initial_deposit (metrics q))) * 100)]
               else [])
            @ (if ''minimal_deposit'' \<in> set flags then [SmallInitialDeposit (m_initial_deposit (metrics q))]
               else [])
            @ (if ''inactive_account'' \<in> set flags then [AccountInactive] else [])
      in if parts \<noteq> [] then parts else [MultipleIndicators])"

record suspicious_client =
  sc_client_id :: string
  sc_client_name :: string
  sc_partner_id :: string
  sc_quality_score :: int
  sc_flags :: "string list"
  sc_metrics :: quality_metrics
  sc_evidence_summary :: "abuse_evidence list"

text \<open>The entry appended for a suspicious client (source lines 127-135).\<close>

definition suspicious_entry :: "datetime \<Rightarrow> (string \<Rightarrow> datetime option) \<Rightarrow> client \<Rightarrow> suspicious_client" where
  "suspicious_entry now fromiso c =
     (let q = calculate_client_quality_score now fromiso c
      in \<lparr>sc_client_id = client_id c,
          sc_client_name = name_or_unknown (name c),
          sc_partner_id = referred_by c,
          sc_quality_score = quality_score q,
          sc_flags = flags_of q,
          sc_metrics = metrics q,
          sc_evidence_summary = generate_abuse_evidence c q\<rparr>)"

text \<open>The parameter \<^verbatim>\<open>threshold_score\<close> is never read by the source.\<close>

definition detect_bonus_abuse_pattern ::
  "datetime \<Rightarrow> (string \<Rightarrow> datetime option) \<Rightarrow> client list \<Rightarrow> int \<Rightarrow> suspicious_client list" where
  "detect_bonus_abuse_pattern now fromiso clients threshold_score =
     sort_key sc_quality_score
       (map (suspicious_entry now fromiso)
          (filter (\<lambda>c. is_suspicious (calculate_client_quality_score now fromiso c)) clients))"

datatype partner_evidence =
    ReferralsFlagged nat nat
  | ConversionRate real
  | ClientsInactive nat nat
  | AverageDepositLow real

definition generate_partner_evidence ::
  "partner \<Rightarrow> client list \<Rightarrow> nat \<Rightarrow> real \<Rightarrow> partner_evidence list" where
  "generate_partner_evidence p cs suspicious_count conv_rate =
     (let total = length cs;
          inactive_count = length (filter (\<lambda>c. \<not> get_is_active c True) cs);
          deposits = map get_deposit cs;
          avg_deposit = (if deposits \<noteq> [] then sum_list deposits / real (length deposits) else 0)
      in [ReferralsFlagged total suspicious_count, ConversionRate conv_rate]
         @ (if real inactive_count / real total > 0.5 then [ClientsInactive inactive_count total] else [])
         @ (if avg_deposit < 300 then [AverageDepositLow avg_deposit] else []))"

record partner_analysis =
  pa_partner_id :: string
  pa_partner_name :: string
  pa_partner_type :: string
  total_referrals :: nat
  suspicious_referrals :: nat
  suspicious_ratio :: real
  avg_client_quality :: real
  conversion_rate :: real
  pa_estimated_fraud_value :: real
  pa_evidence_summary :: "partner_evidence list"

text \<open>\<^verbatim>\<open>partner_clients.get(partner_id, [])\<close>\<close>

definition referred_clients_of :: "(string \<times> client list) list \<Rightarrow> string \<Rightarrow> client list" where
  "referred_clients_of partner_clients pid =
     (case map_of partner_clients pid of None \<Rightarrow> [] | Some cs \<Rightarrow> cs)"

text \<open>
  The body of \<^verbatim>\<open>for partner in partners\<close> of \<^verbatim>\<open>analyze_partner_referral_quality\<close>: the entry
  appended for the partner, if any. The three figures of the rollup come first.
\<close>

definition suspicious_count_of :: "datetime \<Rightarrow> (string \<Rightarrow> datetime option) \<Rightarrow> client list \<Rightarrow> nat" where
  "suspicious_count_of now fromiso cs =
     length (filter (\<lambda>c. is_suspicious (calculate_client_quality_score now fromiso c)) cs)"

definition avg_quality_of :: "datetime \<Rightarrow> (string \<Rightarrow> datetime option) \<Rightarrow> client list \<Rightarrow> real" where
  "avg_quality_of now fromiso cs =
     real_of_int (sum_list (map (\<lambda>c. quality_score (calculate_client_quality_score now fromiso c)) cs))
       / real (length cs)"

definition conversion_rate_of :: "client list \<Rightarrow> real" where
  "conversion_rate_of cs = real (length (filter (\<lambda>c. get_is_active c False) cs)) / real (length cs)"

definition analyze_partner ::
  "datetime \<Rightarrow> (string \<Rightarrow> datetime option) \<Rightarrow> (string \<times> client list) list \<Rightarrow> partner
     \<Rightarrow> partner_analysis list" where
  "analyze_partner now fromiso partner_clients p =
     (let referred_clients = referred_clients_of partner_clients (partner_id p) in
      if referred_clients = [] then []
      else
        let suspicious_count = suspicious_count_of now fromiso referred_clients;
            avg_quality = avg_quality_of now fromiso referred_clients;
            conv_rate = conversion_rate_of referred_clients;
            suspicious =
              (real suspicious_count / real (length referred_clients) > 0.3
               \<or> avg_quality < 50 \<or> conv_rate < 0.25)
        in if suspicious then
             [\<lparr>pa_partner_id = partner_id p,
               pa_partner_name = name_or_unknown (partner_name p),
               pa_partner_type = (case partner_type p of None \<Rightarrow> ''unknown'' | Some t \<Rightarrow> t),
               total_referrals = length referred_clients,
               suspicious_referrals = suspicious_count,
               suspicious_ratio = py_round (real suspicious_count / real (length referred_clients)) 3,
               avg_client_quality = py_round avg_quality 1,
               conversion_rate = py_round conv_rate 3,
               pa_estimated_fraud_value =
                 py_round (sum_list (map get_deposit
                    (filter (\<lambda>c. is_suspicious (calculate_client_quality_score now fromiso c))
                       referred_clients)) * 0.15) 2,
               pa_evidence_summary =
                 generate_partner_evidence p referred_clients suspicious_count conv_rate\<rparr>]
           else [])"

definition analyze_partner_referral_quality ::
  "datetime \<Rightarrow> (string \<Rightarrow> datetime option) \<Rightarrow> partner list \<Rightarrow> client list \<Rightarrow> partner_analysis list" where
  "analyze_partner_referral_quality now fromiso partners clients =
     sort_desc suspicious_ratio
       (concat (map (analyze_partner now fromiso (group_by_partner clients)) partners))"

record bonus_report =
  total_suspicious_clients :: nat
  total_suspicious_partners :: nat
  total_estimated_fraud_value :: real
  suspicious_clients :: "suspicious_client list"
  suspicious_partners :: "partner_analysis list"

definition detect_bonus_abuse ::
  "datetime \<Rightarrow> (string \<Rightarrow> datetime option) \<Rightarrow> client list \<Rightarrow> partner list \<Rightarrow> bonus_report" where
  "detect_bonus_abuse now fromiso clients partners =
     (let found_clients = detect_bonus_abuse_pattern now fromiso clients 50;
          found_partners = analyze_partner_referral_quality now fromiso partners clients
      in \<lparr>total_suspicious_clients = length found_clients,
          total_suspicious_partners = length found_partners,
          total_estimated_fraud_value = sum_list (map pa_estimated_fraud_value found_partners),
          suspicious_clients = take 50 found_clients,
          suspicious_partners = found_partners\<rparr>)"

section \<open>The penalty table of the specification\<close>

text \<open>
  The specification's table for the client quality score, one definition per metric; within a
  metric only the first matching band applies. These follow the specification's words and are
  compared with \<open>calculate_client_quality_score\<close> below.
\<close>

definition spec_trade_count_penalty :: "nat \<Rightarrow> int" where
  "spec_trade_count_penalty trade_count =
     (if trade_count = 0 then 40 else if trade_count < 5 then 25
      else if trade_count < 10 then 10 else 0)"

definition spec_volume_ratio_penalty :: "bool \<Rightarrow> real \<Rightarrow> real \<Rightarrow> int" where
  "spec_volume_ratio_penalty has_trades deposit total_volume =
     (if has_trades \<and> deposit > 0 then
        (if total_volume / deposit < 0.1 then 20
         else if total_volume / deposit < 0.5 then 10 else 0)
      else 0)"

definition spec_withdrawal_penalty :: "int option \<Rightarrow> int" where
  "spec_withdrawal_penalty dtw =
     (case dtw of None \<Rightarrow> 0 | Some d \<Rightarrow> if d \<le> 3 then 30 else if d \<le> 7 then 15 else 0)"

definition spec_balance_penalty :: "real \<Rightarrow> real \<Rightarrow> int" where
  "spec_balance_penalty deposit balance =
     (if deposit > 0 then
        (if balance / deposit < 0.2 then 15 else if balance / deposit < 0.5 then 5 else 0)
      else 0)"

definition spec_inactive_penalty :: "bool \<Rightarrow> int" where
  "spec_inactive_penalty active = (if active then 0 else 10)"

definition spec_deposit_penalty :: "real \<Rightarrow> int" where
  "spec_deposit_penalty deposit = (if deposit < 200 then 10 else 0)"

definition spec_total_penalty :: "datetime \<Rightarrow> (string \<Rightarrow> datetime option) \<Rightarrow> client \<Rightarrow> int" where
  "spec_total_penalty now fromiso c =
     spec_trade_count_penalty (length (get_trades c))
     + spec_volume_ratio_penalty (get_trades c \<noteq> []) (get_deposit c)
         (sum_list (map volume (get_trades c)))
     + spec_withdrawal_penalty (days_to_withdrawal now fromiso c)
     + spec_balance_penalty (get_deposit c) (get_balance c)
     + spec_inactive_penalty (get_is_active c True)
     + spec_deposit_penalty (get_deposit c)"


section \<open>Invariants used in the proofs\<close>

text \<open>A square matrix of side \<open>n\<close> that is symmetric, with every cell between 0 and 1.\<close>

definition matrix_ok :: "nat \<Rightarrow> real list list \<Rightarrow> bool" where
  "matrix_ok n m \<longleftrightarrow>
     length m = n \<and> (\<forall>a<n. length (m ! a) = n)
     \<and> (\<forall>a<n. \<forall>b<n. m ! a ! b = m ! b ! a \<and> 0 \<le> m ! a ! b \<and> m ! a ! b \<le> 1)"

text \<open>A list of indices below \<open>n\<close> whose distinct members are pairwise similar.\<close>

definition cluster_ok :: "nat \<Rightarrow> real list list \<Rightarrow> real \<Rightarrow> nat list \<Rightarrow> bool" where
  "cluster_ok n m r cluster \<longleftrightarrow>
     set cluster \<subseteq> {0..<n}
     \<and> (\<forall>a\<in>set cluster. \<forall>b\<in>set cluster. a \<noteq> b \<longrightarrow> r \<le> m ! a ! b)"

text \<open>
  A date field on which the bonus-abuse parser never falls back to the clock: it is absent,
  empty (so the withdrawal check is skipped), a \<^verbatim>\<open>datetime\<close>, or a string that parses.
\<close>

definition date_parses :: "(string \<Rightarrow> datetime option) \<Rightarrow> ts_value option \<Rightarrow> bool" where
  "date_parses fromiso v =
     (case v of
        None \<Rightarrow> True
      | Some (TsDatetime d) \<Rightarrow> True
      | Some (TsStr s) \<Rightarrow> s = [] \<or> fromiso (replace_Z s) \<noteq> None)"

definition dates_parse :: "(string \<Rightarrow> datetime option) \<Rightarrow> client \<Rightarrow> bool" where
  "dates_parse fromiso c = (date_parses fromiso (signup_date c) \<and> date_parses fromiso (withdrawal_date c))"

section \<open>Example inputs\<close>

text \<open>
  A stand-in for \<^verbatim>\<open>datetime.fromisoformat\<close> that accepts no string. It agrees with the library
  on every string of the examples below: their only timestamp string is \<^verbatim>\<open>not-a-date\<close>; all
  other timestamps are \<^verbatim>\<open>datetime\<close> objects, which the parsers return unchanged.
\<close>

definition reject_all :: "string \<Rightarrow> datetime option" where
  "reject_all s = None"

definition naive_at :: "int \<Rightarrow> datetime" where
  "naive_at us = \<lparr>micros = us, aware = False\<rparr>"

definition minute_us :: int where
  "minute_us = 60000000"

definition day_us :: int where
  "day_us = 86400000000"

definition mk_trade :: "string \<Rightarrow> ts_value \<Rightarrow> string \<Rightarrow> real \<Rightarrow> real \<Rightarrow> trade" where
  "mk_trade tid ts dir vol pnl =
     \<lparr>trade_id = tid, timestamp = ts, instrument = ''EUR/USD'', direction = dir,
      volume = vol, profit_loss = Some pnl\<rparr>"

text \<open>A client with only the mandatory keys and a trade list.\<close>

definition mk_client :: "string \<Rightarrow> string \<Rightarrow> trade list \<Rightarrow> client" where
  "mk_client cid pid ts =
     \<lparr>client_id = cid, name = None, referred_by = pid, signup_date = None, withdrawal_date = None,
      initial_deposit = None, current_balance = None, is_active = None, trades = Some ts\<rparr>"

text \<open>
  The opposite-trading scenario of the specification: one BUY and one SELL of EUR/USD, volume 1,
  two minutes apart, profit and loss +100 and -100, under partners P1 and P2.
\<close>

definition scenario_trade_a :: trade where
  "scenario_trade_a = mk_trade ''T1'' (TsDatetime (naive_at 0)) ''BUY'' 1 100"

definition scenario_trade_b :: trade where
  "scenario_trade_b = mk_trade ''T2'' (TsDatetime (naive_at (2 * minute_us))) ''SELL'' 1 (- 100)"

definition scenario_clients :: "client list" where
  "scenario_clients = [mk_client ''A'' ''P1'' [scenario_trade_a], mk_client ''B'' ''P2'' [scenario_trade_b]]"

text \<open>One BUY under P1 against two simultaneous SELLs under P2: two opposite pairs, shorter list 1.\<close>

definition crossing_clients :: "client list" where
  "crossing_clients =
     [mk_client ''A'' ''P1'' [mk_trade ''T1'' (TsDatetime (naive_at 0)) ''BUY'' 1 0],
      mk_client ''B'' ''P2'' [mk_trade ''T2'' (TsDatetime (naive_at 0)) ''SELL'' 1 0,
                              mk_trade ''T3'' (TsDatetime (naive_at 0)) ''SELL'' 1 0]]"

text \<open>The scenario with the first trade's timestamp replaced by a string that is no ISO date.\<close>

definition unparseable_trade :: trade where
  "unparseable_trade = mk_trade ''T1'' (TsStr ''not-a-date'') ''BUY'' 1 100"

definition unparseable_clients :: "client list" where
  "unparseable_clients = [mk_client ''A'' ''P1'' [unparseable_trade], mk_client ''B'' ''P2'' [scenario_trade_b]]"

text \<open>Three clients of one partner, each with the same ten trades.\<close>

definition example_trade :: trade where
  "example_trade = mk_trade ''T'' (TsDatetime (naive_at 0)) ''BUY'' 1 10"

definition example_trades :: "trade list" where
  "example_trades = replicate 10 example_trade"

definition mirror_client :: "string \<Rightarrow> client" where
  "mirror_client cid = (mk_client cid ''P1'' example_trades)\<lparr>signup_date := Some (TsDatetime (naive_at 0))\<rparr>"

definition mirror_clients :: "client list" where
  "mirror_clients = [mirror_client ''a'', mirror_client ''b'', mirror_client ''c'']"

text \<open>
  The bonus-abuse example of the specification: no trades, inactive, deposit 150, balance 20,
  withdrawal two days after signup.
\<close>

definition bonus_example_client :: client where
  "bonus_example_client =
     \<lparr>client_id = ''C1'', name = None, referred_by = ''P1'',
      signup_date = Some (TsDatetime (naive_at 0)),
      withdrawal_date = Some (TsDatetime (naive_at (2 * day_us))),
      initial_deposit = Some 150, current_balance = Some 20, is_active = Some False,
      trades = Some []\<rparr>"

text \<open>
  A client with three trades whose signup date does not parse and whose withdrawal is a naive
  \<^verbatim>\<open>datetime\<close> at day 10; two clock readings, one at day 9 and one at day 0.
\<close>

definition clock_client :: client where
  "clock_client =
     \<lparr>client_id = ''C2'', name = None, referred_by = ''P1'',
      signup_date = Some (TsStr ''not-a-date''),
      withdrawal_date = Some (TsDatetime (naive_at (10 * day_us))),
      initial_deposit = Some 1000, current_balance = Some 1000, is_active = Some True,
      trades = Some (replicate 3 (mk_trade ''T'' (TsDatetime (naive_at 0)) ''BUY'' 500 0))\<rparr>"

definition clock_late :: datetime where
  "clock_late = naive_at (9 * day_us)"

definition clock_early :: datetime where
  "clock_early = naive_at 0"

text \<open>
  A well-funded client with ten trades and no \<^verbatim>\<open>is_active\<close> key, and the partner that referred
  it.
\<close>

definition unflagged_client :: client where
  "unflagged_client =
     \<lparr>client_id = ''C3'', name = None, referred_by = ''P1'',
      signup_date = None, withdrawal_date = None,
      initial_deposit = Some 1000, current_balance = Some 1000, is_active = None,
      trades = Some (replicate 10 (mk_trade ''T'' (TsDatetime (naive_at 0)) ''BUY'' 100 0))\<rparr>"

definition example_partner :: partner where
  "example_partner = \<lparr>partner_id = ''P1'', partner_name = None, partner_type = None\<rparr>"

text \<open>
  For every \<open>i\<close> a partner with its own id and one client referred by it, a copy of the
  bonus-abuse example client.
\<close>

definition numbered_id :: "nat \<Rightarrow> string" where
  "numbered_id i = replicate (Suc i) CHR ''P''"

definition numbered_client :: "nat \<Rightarrow> client" where
  "numbered_client i = bonus_example_client\<lparr>referred_by := numbered_id i\<rparr>"

definition numbered_partner :: "nat \<Rightarrow> partner" where
  "numbered_partner i = \<lparr>partner_id = numbered_id i, partner_name = None, partner_type = None\<rparr>"

text \<open>Three clients of partner P1 with quality scores 100, 45 (at \<open>clock_late\<close>) and 0.\<close>

definition report_clients :: "client list" where
  "report_clients = [unflagged_client, clock_client, bonus_example_client]"

section \<open>Properties\<close>

subsection \<open>Loops\<close>

lemma fold_err_invariant:
  assumes "fold_err f xs s = Inr s'" and "P s"
    and "\<And>x a b. x \<in> set xs \<Longrightarrow> P a \<Longrightarrow> f x a = Inr b \<Longrightarrow> P b"
  shows "P s'"
  using assms
proof (induction xs arbitrary: s)
  case Nil
  then show ?case by simp
next
  case (Cons x xs)
  from Cons.prems(1) obtain t where t: "f x s = Inr t" and rest: "fold_err f xs t = Inr s'"
    by (auto split: sum.splits)
  have "P t" using Cons.prems(3)[of x s t] Cons.prems(2) t by simp
  show ?case
    by (rule Cons.IH[OF rest \<open>P t\<close>]) (use Cons.prems(3) in auto)
qed

lemma fold_err_counted:
  assumes "fold_err f xs s = Inr s'"
    and "\<And>x a b. f x a = Inr b \<Longrightarrow> \<mu> b \<le> \<mu> a + (1::nat)"
  shows "\<mu> s' \<le> \<mu> s + length xs"
  using assms
proof (induction xs arbitrary: s)
  case Nil
  then show ?case by simp
next
  case (Cons x xs)
  from Cons.prems(1) obtain t where t: "f x s = Inr t" and rest: "fold_err f xs t = Inr s'"
    by (auto split: sum.splits)
  have "\<mu> s' \<le> \<mu> t + length xs" using Cons.IH[OF rest] Cons.prems(2) by simp
  moreover have "\<mu> t \<le> \<mu> s + 1" using Cons.prems(2)[OF t] .
  ultimately show ?case by simp
qed

lemma foldl_invariant:
  assumes "P s" and "\<And>x a. x \<in> set xs \<Longrightarrow> P a \<Longrightarrow> P (f a x)"
  shows "P (foldl f s xs)"
  using assms by (induction xs arbitrary: s) auto

subsection \<open>Greedy matching consumes each trade of the second list at most once\<close>

lemma best_unused_fresh:
  assumes "best_unused fromiso w ms used t1 trades2 = Inr (bm, bs, bi)"
  shows "bi = - 1 \<or> (bi \<notin> used \<and> 0 \<le> bi \<and> bi < int (length trades2))"
proof -
  let ?P = "\<lambda>st :: trade option \<times> real \<times> int.
     snd (snd st) = - 1 \<or> (snd (snd st) \<notin> used \<and> 0 \<le> snd (snd st) \<and> snd (snd st) < int (length trades2))"
  have "?P (bm, bs, bi)"
  proof (rule fold_err_invariant[where P = ?P, OF assms[unfolded best_unused_def]])
    show "?P (None, ms, - 1)" by simp
  next
    fix x a b
    assume x: "x \<in> set (zip (map int [0..<length trades2]) trades2)" and a: "?P a"
      and step: "best_unused_step fromiso w used t1 x a = Inr b"
    have "fst x \<in> set (map int [0..<length trades2])"
      by (metis x prod.collapse set_zip_leftD)
    then have rng: "0 \<le> fst x \<and> fst x < int (length trades2)" by auto
    show "?P b" using step a rng
      by (auto simp: best_unused_step_def Let_def split: if_splits sum.splits)
  qed
  then show ?thesis by simp
qed

lemma match_loop_distinct:
  assumes "match_loop fromiso trades1 trades2 w ms = Inr (matches, used)"
  shows "finite used \<and> card used = length matches \<and> used \<subseteq> {0..<int (length trades2)}"
proof -
  let ?P = "\<lambda>st :: trade_match list \<times> int set.
     finite (snd st) \<and> card (snd st) = length (fst st) \<and> snd st \<subseteq> {0..<int (length trades2)}"
  have "?P (matches, used)"
  proof (rule fold_err_invariant[where P = ?P, OF assms[unfolded match_loop_def]])
    show "?P ([], {})" by simp
  next
    fix x a b
    assume a: "?P a" and step: "match_step fromiso trades2 w ms x a = Inr b"
    from step obtain bm bs bi where bu: "best_unused fromiso w ms (snd a) x trades2 = Inr (bm, bs, bi)"
      by (auto simp: match_step_def Let_def split: sum.splits)
    note fresh = best_unused_fresh[OF bu]
    show "?P b" using step a bu fresh
      by (auto simp: match_step_def Let_def split: option.splits if_splits)
  qed
  then show ?thesis by simp
qed

lemma match_loop_length_left:
  assumes "match_loop fromiso trades1 trades2 w ms = Inr (matches, used)"
  shows "length matches \<le> length trades1"
proof -
  have "(length \<circ> fst) (matches, used) \<le> (length \<circ> fst) (([], {}) :: trade_match list \<times> int set) + length trades1"
    by (rule fold_err_counted[OF assms[unfolded match_loop_def]])
       (auto simp: match_step_def Let_def split: sum.splits option.splits if_splits prod.splits)
  then show ?thesis by simp
qed

lemma match_loop_length_right:
  assumes "match_loop fromiso trades1 trades2 w ms = Inr (matches, used)"
  shows "length matches \<le> length trades2"
proof -
  from match_loop_distinct[OF assms]
  have c: "card used = length matches" and s: "used \<subseteq> {0..<int (length trades2)}" by simp_all
  have "card used \<le> card {0..<int (length trades2)}" by (rule card_mono[OF _ s]) simp
  then show ?thesis using c by simp
qed

lemma match_ratio_bounds:
  assumes "match_ratio_of fromiso trades1 trades2 = Inr v"
  shows "0 \<le> v \<and> v \<le> 1"
proof -
  from assms obtain matches used where ml: "match_loop fromiso trades1 trades2 5 0.7 = Inr (matches, used)"
    and v: "v = (if min (length trades1) (length trades2) > 0
               then real (length matches) / real (min (length trades1) (length trades2)) else 0)"
    by (auto simp: match_ratio_of_def find_matching_trades_def split: sum.splits)
  have "length matches \<le> min (length trades1) (length trades2)"
    using match_loop_length_left[OF ml] match_loop_length_right[OF ml] by simp
  then show ?thesis using v by (auto simp: divide_le_eq)
qed

subsection \<open>The similarity matrix and the clusters\<close>

lemma set_cells_ok:
  assumes "set_cells fromiso pcl i j m = Inr m'" and "matrix_ok n m" and "i < n" and "j < n"
  shows "matrix_ok n m'"
proof -
  from assms(1) obtain v where v: "match_ratio_of fromiso (get_trades (pcl ! i)) (get_trades (pcl ! j)) = Inr v"
    and m': "m' = (m[i := (m ! i)[j := v]])[j := ((m[i := (m ! i)[j := v]]) ! j)[i := v]]"
    by (auto simp: set_cells_def Let_def split: sum.splits)
  have vb: "0 \<le> v" "v \<le> 1" using match_ratio_bounds[OF v] by simp_all
  have len: "length m = n" and rows: "\<And>a. a < n \<Longrightarrow> length (m ! a) = n"
    using assms(2) by (simp_all add: matrix_ok_def)
  have cell: "m' ! a ! b = (if (a = i \<and> b = j) \<or> (a = j \<and> b = i) then v else m ! a ! b)"
    if "a < n" "b < n" for a b
    using that len rows assms(3,4) by (auto simp: m' nth_list_update)
  have "length m' = n" by (simp add: m' len)
  moreover have "length (m' ! a) = n" if "a < n" for a
    using that len rows assms(3,4) by (auto simp: m' nth_list_update)
  moreover have "m' ! a ! b = m' ! b ! a \<and> 0 \<le> m' ! a ! b \<and> m' ! a ! b \<le> 1" if "a < n" "b < n" for a b
    using that assms(2) vb by (auto simp: cell matrix_ok_def)
  ultimately show ?thesis by (simp add: matrix_ok_def)
qed

lemma build_similarity_matrix_ok:
  assumes "build_similarity_matrix fromiso pcl = Inr m"
  shows "matrix_ok (length pcl) m"
proof (rule fold_err_invariant[where P = "matrix_ok (length pcl)",
         OF assms[unfolded build_similarity_matrix_def Let_def]])
  show "matrix_ok (length pcl) (replicate (length pcl) (replicate (length pcl) 0))"
    by (simp add: matrix_ok_def)
next
  fix i a b
  assume i: "i \<in> set [0..<length pcl]" and a: "matrix_ok (length pcl) a"
    and row: "fold_err (set_cells fromiso pcl i) [i + 1..<length pcl] a = Inr b"
  show "matrix_ok (length pcl) b"
  proof (rule fold_err_invariant[where P = "matrix_ok (length pcl)", OF row a])
    fix j c d
    assume "j \<in> set [i + 1..<length pcl]" and "matrix_ok (length pcl) c"
      and "set_cells fromiso pcl i j c = Inr d"
    then show "matrix_ok (length pcl) d" using i set_cells_ok[of fromiso pcl i j c d "length pcl"] by simp
  qed
qed

lemma grow_step_ok:
  assumes "cluster_ok n m r cluster" and "matrix_ok n m" and "j < n"
  shows "cluster_ok n m r (grow_step m r clustered cluster j)"
proof (cases "j \<notin> clustered \<and> list_all (\<lambda>k. m ! j ! k \<ge> r) cluster")
  case False
  then show ?thesis using assms(1) by (auto simp: grow_step_def)
next
  case True
  then have chk: "\<And>k. k \<in> set cluster \<Longrightarrow> r \<le> m ! j ! k" by (simp add: list_all_iff)
  have sym: "\<And>k. k \<in> set cluster \<Longrightarrow> m ! k ! j = m ! j ! k"
    using assms by (auto simp: cluster_ok_def matrix_ok_def)
  have "grow_step m r clustered cluster j = cluster @ [j]" using True by (simp add: grow_step_def)
  then show ?thesis using assms(1,3) chk sym by (auto simp: cluster_ok_def)
qed

lemma grow_cluster_ok:
  assumes "matrix_ok n m" and "i < n"
  shows "cluster_ok n m r (grow_cluster m r clustered i n)"
  unfolding grow_cluster_def
proof (rule foldl_invariant[where P = "cluster_ok n m r"])
  show "cluster_ok n m r [i]" using assms(2) by (simp add: cluster_ok_def)
next
  fix x a
  assume "x \<in> set [i + 1..<n]" and "cluster_ok n m r a"
  then show "cluster_ok n m r (grow_step m r clustered a x)"
    using grow_step_ok[OF _ assms(1)] by simp
qed


lemma round_half_even_bounds:
  assumes "of_int a \<le> x" and "x \<le> of_int b"
  shows "a \<le> round_half_even x \<and> round_half_even x \<le> b"
proof -
  have lo: "a \<le> \<lfloor>x\<rfloor>" using assms(1) by (simp add: le_floor_iff)
  have hi: "\<lfloor>x\<rfloor> \<le> b" using floor_mono[OF assms(2)] by simp
  have up: "\<lfloor>x\<rfloor> + 1 \<le> b" if "x - of_int \<lfloor>x\<rfloor> > 0"
  proof -
    have "of_int \<lfloor>x\<rfloor> < x" using that by simp
    then have "of_int \<lfloor>x\<rfloor> < (of_int b :: real)" using assms(2) by linarith
    then show ?thesis by simp
  qed
  show ?thesis using lo hi up
    by (auto simp: round_half_even_def Let_def)
qed

lemma py_round_unit:
  assumes "0 \<le> x" and "x \<le> 1"
  shows "0 \<le> py_round x n \<and> py_round x n \<le> 1"
proof -
  have "of_int 0 \<le> x * 10 ^ n" using assms(1) by simp
  moreover have "x * 10 ^ n \<le> of_int (10 ^ n)" using assms(2) by (simp add: mult_left_le_one_le)
  ultimately have "0 \<le> round_half_even (x * 10 ^ n) \<and> round_half_even (x * 10 ^ n) \<le> 10 ^ n"
    by (rule round_half_even_bounds)
  then have "0 \<le> (of_int (round_half_even (x * 10 ^ n)) :: real)"
    and "(of_int (round_half_even (x * 10 ^ n)) :: real) \<le> 10 ^ n"
    by (simp, metis of_int_le_iff of_int_numeral of_int_power)
  then show ?thesis by (simp add: py_round_def divide_le_eq)
qed

lemma sum_list_unit_bounds:
  assumes "\<And>x. x \<in> set xs \<Longrightarrow> 0 \<le> x \<and> x \<le> (1::real)"
  shows "0 \<le> sum_list xs \<and> sum_list xs \<le> real (length xs)"
  using assms
proof (induction xs)
  case Nil
  then show ?case by simp
next
  case (Cons y ys)
  have "0 \<le> y \<and> y \<le> 1" using Cons.prems[of y] by simp
  moreover have "0 \<le> sum_list ys \<and> sum_list ys \<le> real (length ys)"
    using Cons.IH Cons.prems by simp
  ultimately show ?case by simp
qed

lemma length_cluster_pairs:
  "2 * length (cluster_pair_similarities m cluster) = length cluster * (length cluster - 1)"
proof -
  have "length (cluster_pair_similarities m cluster) = (\<Sum>i<length cluster. length cluster - Suc i)"
    by (simp add: cluster_pair_similarities_def length_concat comp_def
          interv_sum_list_conv_sum_set_nat atLeast0LessThan)
  also have "\<dots> = (\<Sum>i<length cluster. i)"
    by (rule sum.nat_diff_reindex)
  finally have "2 * length (cluster_pair_similarities m cluster) = 2 * (\<Sum>i<length cluster. i)" by simp
  also have "\<dots> = length cluster * (length cluster - 1)"
    using gauss_sum_nat[of "length cluster - 1"]
    by (cases "length cluster") (simp_all add: lessThan_Suc_atMost atMost_atLeast0)
  finally show ?thesis .
qed

lemma cluster_confidence_unit:
  assumes "matrix_ok n m" and "set cluster \<subseteq> {0..<n}"
  shows "0 \<le> cluster_confidence m cluster \<and> cluster_confidence m cluster \<le> 1"
proof -
  let ?xs = "cluster_pair_similarities m cluster"
  have cells: "0 \<le> x \<and> x \<le> 1" if "x \<in> set ?xs" for x
  proof -
    from that have "\<exists>i j. i < j \<and> j < length cluster \<and> x = m ! (cluster ! i) ! (cluster ! j)"
      by (auto simp: cluster_pair_similarities_def Suc_le_eq) blast
    then obtain i j where ij: "i < j" "j < length cluster"
      and x: "x = m ! (cluster ! i) ! (cluster ! j)" by blast
    have "cluster ! i \<in> set cluster" "cluster ! j \<in> set cluster" using ij by simp_all
    then have "cluster ! i < n" "cluster ! j < n" using assms(2) by auto
    then show ?thesis using assms(1) x by (simp add: matrix_ok_def)
  qed
  have s: "0 \<le> sum_list ?xs" "sum_list ?xs \<le> real (length ?xs)"
    using sum_list_unit_bounds[of ?xs] cells by blast+
  have "real (length cluster * (length cluster - 1)) = 2 * real (length ?xs)"
    using length_cluster_pairs[of m cluster] by (metis of_nat_mult of_nat_numeral)
  then have cnt: "real (length cluster * (length cluster - 1)) / 2 = real (length ?xs)" by simp
  have "sum_list ?xs \<le> max 1 (real (length ?xs))" using s(2) by simp
  then have "0 \<le> sum_list ?xs / max 1 (real (length ?xs))"
    and "sum_list ?xs / max 1 (real (length ?xs)) \<le> 1"
    using s(1) by (simp_all add: divide_le_eq)
  then show ?thesis unfolding cluster_confidence_def cnt by (rule py_round_unit)
qed


lemma grow_cluster_sorted:
  "sorted_wrt (<) (grow_cluster m r clustered i n) \<and> set (grow_cluster m r clustered i n) \<subseteq> {i..<max (Suc i) n}"
proof (induction n)
  case 0
  then show ?case by (simp add: grow_cluster_def)
next
  case (Suc n)
  show ?case
  proof (cases "Suc i \<le> n")
    case False
    then show ?thesis by (simp add: grow_cluster_def)
  next
    case True
    then have step: "grow_cluster m r clustered i (Suc n) = grow_step m r clustered (grow_cluster m r clustered i n) n"
      by (simp add: grow_cluster_def)
    from True Suc.IH have ih: "sorted_wrt (<) (grow_cluster m r clustered i n)"
      "set (grow_cluster m r clustered i n) \<subseteq> {i..<n}" by (simp_all add: max_def)
    then show ?thesis unfolding step using True
      by (auto simp: grow_step_def sorted_wrt_append max_def)
  qed
qed

lemma make_group_fields:
  assumes "make_group fromiso pid pcl m cluster = Inr g"
  shows "group_partner_id g = pid \<and> group_size g = length cluster
    \<and> client_ids g = map (\<lambda>idx. client_id (pcl ! idx)) cluster
    \<and> group_confidence_score g = cluster_confidence m cluster"
  using assms by (auto simp: make_group_def Let_def comp_def split: sum.splits)

lemma cluster_loop_provenance:
  assumes loop: "cluster_loop fromiso mgs r pid pcl m gs0 = Inr (gs, cl)"
    and old: "\<And>g. g \<in> set gs0 \<Longrightarrow> Q g"
    and new: "\<And>clustered i g. i < length pcl \<Longrightarrow>
       make_group fromiso pid pcl m (grow_cluster m r clustered i (length pcl)) = Inr g \<Longrightarrow> Q g"
    and mem: "g \<in> set gs"
  shows "Q g"
proof -
  let ?P = "\<lambda>st :: mirror_group list \<times> nat set. \<forall>g\<in>set (fst st). Q g"
  have "?P (gs, cl)"
  proof (rule fold_err_invariant[where P = ?P, OF loop[unfolded cluster_loop_def]])
    show "?P (gs0, {})" using old by simp
  next
    fix i a b
    assume i: "i \<in> set [0..<length pcl]" and a: "?P a"
      and step: "cluster_step fromiso mgs r pid pcl m i a = Inr b"
    show "?P b" using step a i new[of i]
      by (auto simp: cluster_step_def Let_def split: if_splits sum.splits)
  qed
  then show ?thesis using mem by simp
qed

lemma analyze_partner_group_provenance:
  assumes run: "analyze_partner_group fromiso mgs r (pid, pcl) gs0 = Inr gs"
    and old: "\<And>g. g \<in> set gs0 \<Longrightarrow> Q g"
    and new: "\<And>m clustered i g. build_similarity_matrix fromiso pcl = Inr m \<Longrightarrow> i < length pcl \<Longrightarrow>
       make_group fromiso pid pcl m (grow_cluster m r clustered i (length pcl)) = Inr g \<Longrightarrow> Q g"
    and mem: "g \<in> set gs"
  shows "Q g"
proof (cases "length pcl < mgs")
  case True
  then show ?thesis using run old mem by (simp add: analyze_partner_group_def)
next
  case False
  with run obtain m cl where m: "build_similarity_matrix fromiso pcl = Inr m"
    and loop: "cluster_loop fromiso mgs r pid pcl m gs0 = Inr (gs, cl)"
    by (auto simp: analyze_partner_group_def Let_def split: sum.splits)
  show ?thesis
  proof (rule cluster_loop_provenance[OF loop _ _ mem])
    fix g' assume "g' \<in> set gs0" then show "Q g'" by (rule old)
  next
    fix clustered i g'
    assume "i < length pcl"
      and "make_group fromiso pid pcl m (grow_cluster m r clustered i (length pcl)) = Inr g'"
    then show "Q g'" by (rule new[OF m])
  qed
qed

lemma detect_mirror_group_provenance:
  assumes run: "detect_mirror_group fromiso clients mgs r = Inr groups" and mem: "g \<in> set groups"
  shows "\<exists>pid pcl m clustered i.
     (pid, pcl) \<in> set (group_by_partner (filter (\<lambda>c. length (get_trades c) \<ge> 10) clients))
     \<and> build_similarity_matrix fromiso pcl = Inr m \<and> i < length pcl
     \<and> make_group fromiso pid pcl m (grow_cluster m r clustered i (length pcl)) = Inr g"
proof -
  let ?pgs = "group_by_partner (filter (\<lambda>c. length (get_trades c) \<ge> 10) clients)"
  let ?Q = "\<lambda>g. \<exists>pid pcl m clustered i. (pid, pcl) \<in> set ?pgs
     \<and> build_similarity_matrix fromiso pcl = Inr m \<and> i < length pcl
     \<and> make_group fromiso pid pcl m (grow_cluster m r clustered i (length pcl)) = Inr g"
  from run obtain gs where fold: "fold_err (analyze_partner_group fromiso mgs r) ?pgs [] = Inr gs"
    and groups: "groups = sort_desc group_confidence_score gs"
    by (auto simp: detect_mirror_group_def Let_def split: sum.splits)
  have "\<forall>g\<in>set gs. ?Q g"
  proof (rule fold_err_invariant[where P = "\<lambda>gs. \<forall>g\<in>set gs. ?Q g", OF fold])
    show "\<forall>g\<in>set []. ?Q g" by simp
  next
    fix x a b
    assume x: "x \<in> set ?pgs" and a: "\<forall>g\<in>set a. ?Q g"
      and step: "analyze_partner_group fromiso mgs r x a = Inr b"
    obtain pid pcl where xeq: "x = (pid, pcl)" by (cases x)
    show "\<forall>g\<in>set b. ?Q g"
    proof
      fix g assume g: "g \<in> set b"
      show "?Q g"
      proof (rule analyze_partner_group_provenance[OF step[unfolded xeq] _ _ g])
        fix g' assume "g' \<in> set a" then show "?Q g'" using a by blast
      next
        fix m clustered i g'
        assume "build_similarity_matrix fromiso pcl = Inr m" "i < length pcl"
          "make_group fromiso pid pcl m (grow_cluster m r clustered i (length pcl)) = Inr g'"
        then show "?Q g'" using x xeq by blast
      qed
    qed
  qed
  moreover have "g \<in> set gs" using mem groups by (simp add: sort_desc_def)
  ultimately show ?thesis by blast
qed

text \<open>
  Claim C5. Every group returned by the mirror-trading detector comes from a list of distinct
  indices into one partner's client list, and any two different members of that list have a
  similarity, in the matrix built for that partner, of at least \<open>min_mirror_ratio\<close>.
\<close>

theorem mirror_cluster_validity:
  assumes "detect_mirror_group fromiso clients min_group_size min_mirror_ratio = Inr groups"
    and "g \<in> set groups"
  shows "\<exists>pid pcl m cluster.
     (pid, pcl) \<in> set (group_by_partner (filter (\<lambda>c. length (get_trades c) \<ge> 10) clients))
     \<and> build_similarity_matrix fromiso pcl = Inr m
     \<and> distinct cluster \<and> set cluster \<subseteq> {0..<length pcl}
     \<and> group_partner_id g = pid \<and> group_size g = length cluster
     \<and> client_ids g = map (\<lambda>idx. client_id (pcl ! idx)) cluster
     \<and> (\<forall>a\<in>set cluster. \<forall>b\<in>set cluster. a \<noteq> b \<longrightarrow> min_mirror_ratio \<le> m ! a ! b)"
proof -
  from detect_mirror_group_provenance[OF assms]
  obtain pid pcl m clustered i where pg: "(pid, pcl) \<in> set (group_by_partner (filter (\<lambda>c. length (get_trades c) \<ge> 10) clients))"
    and m: "build_similarity_matrix fromiso pcl = Inr m" and i: "i < length pcl"
    and mk: "make_group fromiso pid pcl m (grow_cluster m min_mirror_ratio clustered i (length pcl)) = Inr g"
    by blast
  let ?cluster = "grow_cluster m min_mirror_ratio clustered i (length pcl)"
  have ok: "cluster_ok (length pcl) m min_mirror_ratio ?cluster"
    by (rule grow_cluster_ok[OF build_similarity_matrix_ok[OF m] i])
  have "sorted_wrt (<) ?cluster" using grow_cluster_sorted by blast
  then have d: "distinct ?cluster" by (simp add: strict_sorted_iff)
  show ?thesis
    using pg m d ok make_group_fields[OF mk] unfolding cluster_ok_def by blast
qed

text \<open>
  Claim C10. The greedy matching uses each index of the second list at most once (the set of
  used indices has as many elements as there are matches, all of them positions of the second
  list), so there are at most \<open>min (length trades1) (length trades2)\<close> matches; every cell of the
  similarity matrix and every confidence score of a returned group lies between 0 and 1.
\<close>

theorem mirror_scores_in_unit_interval:
  "(match_loop fromiso trades1 trades2 w ms = Inr (matches, used)
      \<longrightarrow> card used = length matches \<and> used \<subseteq> {0..<int (length trades2)})
   \<and> (find_matching_trades fromiso trades1 trades2 w ms = Inr matches
      \<longrightarrow> length matches \<le> min (length trades1) (length trades2))
   \<and> (build_similarity_matrix fromiso pcl = Inr m
      \<longrightarrow> (\<forall>i<length pcl. \<forall>j<length pcl. 0 \<le> m ! i ! j \<and> m ! i ! j \<le> 1))
   \<and> (detect_mirror_group fromiso clients min_group_size min_mirror_ratio = Inr groups
      \<longrightarrow> (\<forall>g\<in>set groups. 0 \<le> group_confidence_score g \<and> group_confidence_score g \<le> 1))"
proof (intro conjI impI)
  assume "match_loop fromiso trades1 trades2 w ms = Inr (matches, used)"
  then show "card used = length matches" "used \<subseteq> {0..<int (length trades2)}"
    using match_loop_distinct by blast+
next
  assume "find_matching_trades fromiso trades1 trades2 w ms = Inr matches"
  then obtain u where "match_loop fromiso trades1 trades2 w ms = Inr (matches, u)"
    by (auto simp: find_matching_trades_def split: sum.splits)
  then show "length matches \<le> min (length trades1) (length trades2)"
    using match_loop_length_left match_loop_length_right by fastforce
next
  assume "build_similarity_matrix fromiso pcl = Inr m"
  then show "\<forall>i<length pcl. \<forall>j<length pcl. 0 \<le> m ! i ! j \<and> m ! i ! j \<le> 1"
    using build_similarity_matrix_ok[of fromiso pcl m] by (simp add: matrix_ok_def)
next
  assume run: "detect_mirror_group fromiso clients min_group_size min_mirror_ratio = Inr groups"
  show "\<forall>g\<in>set groups. 0 \<le> group_confidence_score g \<and> group_confidence_score g \<le> 1"
  proof
    fix g assume "g \<in> set groups"
    from detect_mirror_group_provenance[OF run this]
    obtain pid pcl m' clustered i where m': "build_similarity_matrix fromiso pcl = Inr m'" and i: "i < length pcl"
      and mk: "make_group fromiso pid pcl m' (grow_cluster m' min_mirror_ratio clustered i (length pcl)) = Inr g"
      by blast
    have ok: "matrix_ok (length pcl) m'" by (rule build_similarity_matrix_ok[OF m'])
    have "set (grow_cluster m' min_mirror_ratio clustered i (length pcl)) \<subseteq> {0..<length pcl}"
      using grow_cluster_ok[OF ok i] by (simp add: cluster_ok_def)
    from cluster_confidence_unit[OF ok this] make_group_fields[OF mk]
    show "0 \<le> group_confidence_score g \<and> group_confidence_score g \<le> 1" by simp
  qed
qed

subsection \<open>A run of the mirror-trading detector\<close>

lemma mirror_example_run:
  "\<exists>g. detect_mirror_group reject_all mirror_clients 3 (1 / 2) = Inr [g]
       \<and> client_ids g = [''a'', ''b'', ''c''] \<and> group_confidence_score g = 1"
proof -
  have "case detect_mirror_group reject_all mirror_clients 3 (1 / 2) of
          Inr [g] \<Rightarrow> client_ids g = [''a'', ''b'', ''c''] \<and> group_confidence_score g = 1
        | _ \<Rightarrow> False"
    by code_simp
  then show ?thesis by (auto split: sum.splits list.splits)
qed

theorem mirror_cluster_validity_witness:
  "\<exists>g. detect_mirror_group reject_all mirror_clients 3 (1 / 2) = Inr [g]
     \<and> client_ids g = [''a'', ''b'', ''c'']
     \<and> (\<exists>pid pcl m cluster.
          (pid, pcl) \<in> set (group_by_partner (filter (\<lambda>c. length (get_trades c) \<ge> 10) mirror_clients))
          \<and> build_similarity_matrix reject_all pcl = Inr m
          \<and> distinct cluster \<and> set cluster \<subseteq> {0..<length pcl}
          \<and> group_partner_id g = pid \<and> group_size g = length cluster
          \<and> client_ids g = map (\<lambda>idx. client_id (pcl ! idx)) cluster
          \<and> (\<forall>a\<in>set cluster. \<forall>b\<in>set cluster. a \<noteq> b \<longrightarrow> 1 / 2 \<le> m ! a ! b))"
proof -
  from mirror_example_run obtain g
    where run: "detect_mirror_group reject_all mirror_clients 3 (1 / 2) = Inr [g]"
      and ids: "client_ids g = [''a'', ''b'', ''c'']" by blast
  have "g \<in> set [g]" by simp
  from mirror_cluster_validity[OF run this] run ids show ?thesis by blast
qed

lemma matching_example_run:
  "\<exists>matches. match_loop reject_all example_trades example_trades 5 (7 / 10) = Inr (matches, {0, 1, 2, 3, 4, 5, 6, 7, 8, 9})
     \<and> length matches = 10"
proof -
  have "case match_loop reject_all example_trades example_trades 5 (7 / 10) of
          Inr (matches, used) \<Rightarrow> used = {0, 1, 2, 3, 4, 5, 6, 7, 8, 9} \<and> length matches = 10
        | _ \<Rightarrow> False"
    by code_simp
  then show ?thesis by (auto split: sum.splits)
qed

lemma matrix_example_run:
  "build_similarity_matrix reject_all mirror_clients = Inr [[0, 1, 1], [1, 0, 1], [1, 1, 0]]"
  by code_simp

theorem mirror_scores_in_unit_interval_witness:
  "\<exists>matches used m g.
     match_loop reject_all example_trades example_trades 5 (7 / 10) = Inr (matches, used)
     \<and> card used = length matches \<and> used \<subseteq> {0..<int (length example_trades)}
     \<and> find_matching_trades reject_all example_trades example_trades 5 (7 / 10) = Inr matches
     \<and> length matches \<le> min (length example_trades) (length example_trades)
     \<and> build_similarity_matrix reject_all mirror_clients = Inr m
     \<and> 0 \<le> m ! 0 ! 1 \<and> m ! 0 ! 1 \<le> 1
     \<and> detect_mirror_group reject_all mirror_clients 3 (1 / 2) = Inr [g]
     \<and> 0 \<le> group_confidence_score g \<and> group_confidence_score g \<le> 1"
proof -
  from matching_example_run obtain matches
    where ml: "match_loop reject_all example_trades example_trades 5 (7 / 10) = Inr (matches, {0, 1, 2, 3, 4, 5, 6, 7, 8, 9})"
    by blast
  then have fm: "find_matching_trades reject_all example_trades example_trades 5 (7 / 10) = Inr matches"
    by (simp add: find_matching_trades_def)
  from mirror_example_run obtain g
    where run: "detect_mirror_group reject_all mirror_clients 3 (1 / 2) = Inr [g]" by blast
  have len: "length mirror_clients = 3" by (simp add: mirror_clients_def)
  note inst = mirror_scores_in_unit_interval[where fromiso = reject_all and ?trades1.0 = example_trades
      and ?trades2.0 = example_trades and w = 5 and ms = "7 / 10" and matches = matches
      and used = "{0, 1, 2, 3, 4, 5, 6, 7, 8, 9}" and pcl = mirror_clients
      and m = "[[0, 1, 1], [1, 0, 1], [1, 1, 0]]" and clients = mirror_clients
      and min_group_size = 3 and min_mirror_ratio = "1 / 2" and groups = "[g]"]
  from inst ml fm matrix_example_run run len show ?thesis
    by (intro exI[of _ matches] exI[of _ "{0, 1, 2, 3, 4, 5, 6, 7, 8, 9}"]
          exI[of _ "[[0, 1, 1], [1, 0, 1], [1, 1, 0]]"] exI[of _ g]) simp
qed

subsection \<open>Self-similarity of a trade\<close>

text \<open>
  Claim C9. A trade with positive volume and a timestamp that parses has similarity 1 to
  itself, for every positive time window (the window of the program is always the default 5).
\<close>

theorem self_similarity:
  assumes "0 < volume t" and "parse_timestamp fromiso (timestamp t) = Inr d" and "0 < w"
  shows "calculate_trade_similarity fromiso t t w = Inr 1"
  using assms
  by (simp add: calculate_trade_similarity_def abs_seconds_between_def sub_datetime_def
        total_seconds_def Let_def)

theorem self_similarity_witness:
  "0 < volume example_trade
   \<and> parse_timestamp reject_all (timestamp example_trade) = Inr (naive_at 0)
   \<and> calculate_trade_similarity reject_all example_trade example_trade 5 = Inr 1"
proof -
  have v: "0 < volume example_trade" by (simp add: example_trade_def mk_trade_def)
  have p: "parse_timestamp reject_all (timestamp example_trade) = Inr (naive_at 0)"
    by (simp add: example_trade_def mk_trade_def parse_timestamp_def)
  have w: "(0::real) < 5" by simp
  from self_similarity[OF v p w] v p show ?thesis by simp
qed

subsection \<open>The client quality score\<close>

lemma check_num_trades_score:
  "fst (check_num_trades n st) = fst st - spec_trade_count_penalty n"
  by (cases st) (simp add: check_num_trades_def spec_trade_count_penalty_def)

lemma check_volume_ratio_score:
  "fst (check_volume_ratio ts deposit st)
     = fst st - spec_volume_ratio_penalty (ts \<noteq> []) deposit (sum_list (map volume ts))"
  by (cases st) (simp add: check_volume_ratio_def spec_volume_ratio_penalty_def Let_def)

lemma check_quick_withdrawal_score:
  "fst (check_quick_withdrawal dtw st) = fst st - spec_withdrawal_penalty dtw"
  by (cases st) (simp add: check_quick_withdrawal_def spec_withdrawal_penalty_def split: option.splits)

lemma check_balance_ratio_score:
  "fst (check_balance_ratio deposit balance st) = fst st - spec_balance_penalty deposit balance"
  by (cases st) (simp add: check_balance_ratio_def spec_balance_penalty_def Let_def)

lemma check_activity_score:
  "fst (check_activity active st) = fst st - spec_inactive_penalty active"
  by (cases st) (simp add: check_activity_def spec_inactive_penalty_def)

lemma check_deposit_score:
  "fst (check_deposit deposit st) = fst st - spec_deposit_penalty deposit"
  by (cases st) (simp add: check_deposit_def spec_deposit_penalty_def)

lemmas check_scores = check_num_trades_score check_volume_ratio_score check_quick_withdrawal_score
  check_balance_ratio_score check_activity_score check_deposit_score

lemma raw_score:
  "quality_score (calculate_client_quality_score now fromiso c) = max 0 (100 - spec_total_penalty now fromiso c)
   \<and> is_suspicious (calculate_client_quality_score now fromiso c) = (100 - spec_total_penalty now fromiso c < 50)"
  by (simp add: calculate_client_quality_score_def Let_def check_scores spec_total_penalty_def)



lemma bonus_example_penalty: "spec_total_penalty now fromiso bonus_example_client = 105"
  by (simp add: spec_total_penalty_def spec_trade_count_penalty_def spec_volume_ratio_penalty_def
        spec_withdrawal_penalty_def spec_balance_penalty_def spec_inactive_penalty_def
        spec_deposit_penalty_def bonus_example_client_def get_trades_def get_deposit_def
        get_balance_def get_is_active_def days_to_withdrawal_def truthy_def parse_timestamp_bonus_def
        sub_datetime_def days_def naive_at_def day_us_def)


subsection \<open>The default of a missing activity flag\<close>

lemmas penalty_defs = spec_total_penalty_def spec_trade_count_penalty_def
  spec_volume_ratio_penalty_def spec_withdrawal_penalty_def spec_balance_penalty_def
  spec_inactive_penalty_def spec_deposit_penalty_def get_trades_def get_deposit_def
  get_balance_def get_is_active_def days_to_withdrawal_def truthy_def

lemma unflagged_penalty:
  "spec_total_penalty now fromiso unflagged_client = 0"
  "spec_total_penalty now fromiso (unflagged_client\<lparr>is_active := Some True\<rparr>) = 0"
  by (simp_all add: penalty_defs unflagged_client_def mk_trade_def sum_list_replicate)

lemma unflagged_quality:
  "quality_score (calculate_client_quality_score now fromiso unflagged_client) = 100"
  "\<not> is_suspicious (calculate_client_quality_score now fromiso unflagged_client)"
  "quality_score (calculate_client_quality_score now fromiso (unflagged_client\<lparr>is_active := Some True\<rparr>)) = 100"
  "\<not> is_suspicious (calculate_client_quality_score now fromiso (unflagged_client\<lparr>is_active := Some True\<rparr>))"
  using raw_score[of now fromiso unflagged_client]
    raw_score[of now fromiso "unflagged_client\<lparr>is_active := Some True\<rparr>"]
  by (simp_all add: unflagged_penalty)

lemma unflagged_group:
  "referred_clients_of (group_by_partner [c]) (referred_by c) = [c]"
  by (simp add: referred_clients_of_def group_by_partner_def)

lemma unflagged_ref: "referred_by unflagged_client = ''P1''"
  "referred_by (unflagged_client\<lparr>is_active := Some True\<rparr>) = ''P1''"
  "partner_id example_partner = ''P1''"
  by (simp_all add: unflagged_client_def example_partner_def)

lemma unflagged_rates:
  "conversion_rate_of [unflagged_client] = 0"
  "conversion_rate_of [unflagged_client\<lparr>is_active := Some True\<rparr>] = 1"
  by (simp_all add: conversion_rate_of_def get_is_active_def unflagged_client_def)

lemma unflagged_analysis:
  "map (\<lambda>a. (pa_partner_id a, conversion_rate a, pa_evidence_summary a))
        (analyze_partner now fromiso (group_by_partner [unflagged_client]) example_partner)
      = [(''P1'', 0, [ReferralsFlagged 1 0, ConversionRate 0])]"
  using unflagged_group[of unflagged_client]
  by (simp add: analyze_partner_def unflagged_ref Let_def suspicious_count_of_def avg_quality_of_def
        unflagged_quality unflagged_rates generate_partner_evidence_def py_round_def
        round_half_even_def)
     (simp add: unflagged_client_def get_is_active_def get_deposit_def)

lemma flagged_analysis:
  "analyze_partner now fromiso (group_by_partner [unflagged_client\<lparr>is_active := Some True\<rparr>]) example_partner = []"
  using unflagged_group[of "unflagged_client\<lparr>is_active := Some True\<rparr>"]
  by (simp add: analyze_partner_def unflagged_ref Let_def suspicious_count_of_def avg_quality_of_def
        unflagged_quality unflagged_rates)

text \<open>
  Claim C7 fails on the code. For a client without the \<^verbatim>\<open>is_active\<close> key the quality score and
  the partner evidence use the default \<^verbatim>\<open>True\<close>, while the conversion rate of
  \<^verbatim>\<open>analyze_partner_referral_quality\<close> uses the default \<^verbatim>\<open>False\<close>: the partner of one such
  client with a perfect score is reported with conversion rate 0 (and an evidence summary that
  counts no inactive client), and is not reported once the key is present with value \<^verbatim>\<open>True\<close>.
\<close>

theorem is_active_default_differs:
  "m_is_active (metrics (calculate_client_quality_score now fromiso unflagged_client)) = True
   \<and> quality_score (calculate_client_quality_score now fromiso unflagged_client) = 100
   \<and> conversion_rate_of [unflagged_client] = 0
   \<and> conversion_rate_of [unflagged_client\<lparr>is_active := Some True\<rparr>] = 1
   \<and> map (\<lambda>a. (pa_partner_id a, conversion_rate a, pa_evidence_summary a))
        (analyze_partner_referral_quality now fromiso [example_partner] [unflagged_client])
      = [(''P1'', 0, [ReferralsFlagged 1 0, ConversionRate 0])]
   \<and> analyze_partner_referral_quality now fromiso [example_partner]
        [unflagged_client\<lparr>is_active := Some True\<rparr>] = []"
proof -
  have act: "m_is_active (metrics (calculate_client_quality_score now fromiso unflagged_client)) = True"
    by (simp add: calculate_client_quality_score_def Let_def get_is_active_def unflagged_client_def)
  obtain a where a: "analyze_partner now fromiso (group_by_partner [unflagged_client]) example_partner = [a]"
    using unflagged_analysis[of now fromiso] by (auto simp: map_eq_Cons_conv)
  show ?thesis
    using act unflagged_quality(1)[of now fromiso] unflagged_rates unflagged_analysis[of now fromiso]
      flagged_analysis[of now fromiso] a
    by (simp add: analyze_partner_referral_quality_def sort_desc_def)
qed

subsection \<open>Runs of the opposite-trading detector\<close>

lemmas example_defs = naive_at_def minute_us_def day_us_def mk_trade_def mk_client_def
  scenario_trade_a_def scenario_trade_b_def scenario_clients_def crossing_clients_def
  unparseable_trade_def unparseable_clients_def

lemmas opposite_defs = calculate_timing_correlation_def detect_opposite_directions_def
  calculate_pnl_correlation_def parse_timestamp_def abs_seconds_between_def sub_datetime_def
  total_seconds_def opposite_ratio_of_def suspicion_score_of_def compare_clients_def
  detect_opposite_trading_def group_by_partner_def get_trades_def get_pnl_def sort_desc_def
  py_round_def round_half_even_def generate_evidence_summary_def display_name_def
  name_or_unknown_def Let_def

text \<open>
  Claim C1 fails on the code. \<^verbatim>\<open>detect_opposite_directions\<close> returns every cross pair, so one
  BUY against two simultaneous SELLs gives two pairs over a shorter list of length 1: the
  opposite ratio is 2, the suspicion score is \<open>0.3 * 1 + 0.4 * 2 + 0.3 * 0 = 1.1\<close>, and the pair
  is reported with a confidence score above 1.
\<close>

theorem crossing_confidence_exceeds_one:
  "map_sum id (map (\<lambda>s. (client_a s, client_b s, num_opposite_pairs s, confidence_score s)))
     (detect_opposite_trading fromiso crossing_clients (6 / 10))
   = Inr [(''A'', ''B'', 2, 11 / 10)]"
  by (simp add: example_defs opposite_defs)

text \<open>
  The scenario of claim C4 has one trade per client, and \<^verbatim>\<open>calculate_pnl_correlation\<close> returns
  0 for lists shorter than 2: the correlation is not -1 and contributes nothing.
\<close>

theorem scenario_pnl_counterexample:
  "calculate_pnl_correlation [scenario_trade_a] [scenario_trade_b] \<noteq> - 1
   \<and> max 0 (- calculate_pnl_correlation [scenario_trade_a] [scenario_trade_b]) * 0.3 \<noteq> 0.3"
  by (simp add: calculate_pnl_correlation_def)

text \<open>
  Claim C4, amended. In the scenario the timing correlation is 0.8 (contributing 0.24), the
  opposite ratio is 1 (contributing 0.4), the profit-and-loss correlation is 0 (contributing
  0), the suspicion score is 0.64, which reaches the threshold 0.6, and the pair is reported.
\<close>

theorem opposite_scenario_reported:
  "calculate_timing_correlation fromiso [scenario_trade_a] [scenario_trade_b] 10 = Inr (8 / 10)
   \<and> map_sum id (\<lambda>pairs. opposite_ratio_of pairs [scenario_trade_a] [scenario_trade_b])
        (detect_opposite_directions fromiso [scenario_trade_a] [scenario_trade_b] 10) = Inr 1
   \<and> calculate_pnl_correlation [scenario_trade_a] [scenario_trade_b] = 0
   \<and> suspicion_score_of (8 / 10) 1 0 = 64 / 100
   \<and> map_sum id (map (\<lambda>s. (partner_a s, partner_b s, client_a s, client_b s, confidence_score s,
                              timing_correlation s, opposite_trade_ratio s, pnl_correlation s)))
        (detect_opposite_trading fromiso scenario_clients (6 / 10))
      = Inr [(''P1'', ''P2'', ''A'', ''B'', 64 / 100, 8 / 10, 1, 0)]"
  by (simp add: example_defs opposite_defs)

text \<open>
  Claim C2 fails on the code. When \<^verbatim>\<open>fromisoformat\<close> rejects a trade's timestamp string, the
  \<^verbatim>\<open>ValueError\<close> leaves \<^verbatim>\<open>parse_timestamp\<close> uncaught and ends the opposite-trading run and the
  trade matching of the mirror detector, instead of contributing 0.
\<close>

theorem unparseable_timestamp_aborts:
  assumes "fromiso ''not-a-date'' = None"
  shows "parse_timestamp fromiso (timestamp unparseable_trade) = Inl ValueError
   \<and> detect_opposite_trading fromiso unparseable_clients (6 / 10) = Inl ValueError
   \<and> calculate_trade_similarity fromiso unparseable_trade scenario_trade_b 5 = Inl ValueError
   \<and> find_matching_trades fromiso [unparseable_trade] [scenario_trade_b] 5 (7 / 10) = Inl ValueError"
  using assms
  by (simp add: example_defs opposite_defs replace_Z_def calculate_trade_similarity_def
        find_matching_trades_def match_loop_def match_step_def best_unused_def best_unused_step_def)

theorem unparseable_timestamp_aborts_witness:
  "reject_all ''not-a-date'' = None
   \<and> detect_opposite_trading reject_all unparseable_clients (6 / 10) = Inl ValueError
   \<and> find_matching_trades reject_all [unparseable_trade] [scenario_trade_b] 5 (7 / 10) = Inl ValueError"
proof -
  have h: "reject_all ''not-a-date'' = None" by (simp add: reject_all_def)
  from unparseable_timestamp_aborts[of reject_all, OF h] h show ?thesis by simp
qed

subsection \<open>The bonus-abuse report and the clock\<close>

lemma group_append_members:
  "(\<Union>e\<in>set (group_append key c m). set (snd e)) = insert c (\<Union>e\<in>set m. set (snd e))"
proof (induction m)
  case Nil
  then show ?case by simp
next
  case (Cons e m)
  obtain k g where e: "e = (k, g)" by (cases e)
  show ?case
  proof (cases "key = k")
    case True
    then show ?thesis by (auto simp: e)
  next
    case False
    then show ?thesis by (simp add: e Cons.IH)
  qed
qed

lemma group_by_partner_members:
  "(\<Union>e\<in>set (foldl (\<lambda>m c. group_append (referred_by c) c m) m0 cs). set (snd e))
     = set cs \<union> (\<Union>e\<in>set m0. set (snd e))"
  by (induction cs arbitrary: m0) (simp_all add: group_append_members)

lemma referred_clients_subset:
  "set (referred_clients_of (group_by_partner cs) pid) \<subseteq> set cs"
proof (cases "map_of (group_by_partner cs) pid")
  case None
  then show ?thesis by (simp add: referred_clients_of_def)
next
  case (Some g)
  then have "(pid, g) \<in> set (group_by_partner cs)" by (rule map_of_SomeD)
  then have "set g \<subseteq> (\<Union>e\<in>set (group_by_partner cs). set (snd e))" by force
  also have "\<dots> = set cs"
    using group_by_partner_members[of "[]" cs] by (simp add: group_by_partner_def)
  finally show ?thesis using Some by (simp add: referred_clients_of_def)
qed

lemma parse_clock_independent:
  assumes "date_parses fromiso (Some ts)" and "truthy (Some ts)"
  shows "parse_timestamp_bonus now1 fromiso ts = parse_timestamp_bonus now2 fromiso ts"
  using assms by (cases ts) (auto simp: date_parses_def truthy_def parse_timestamp_bonus_def)

lemma days_to_withdrawal_clock_independent:
  assumes "dates_parse fromiso c"
  shows "days_to_withdrawal now1 fromiso c = days_to_withdrawal now2 fromiso c"
proof (cases "truthy (withdrawal_date c) \<and> truthy (signup_date c)")
  case False
  then have "days_to_withdrawal now1 fromiso c = None" "days_to_withdrawal now2 fromiso c = None"
    unfolding days_to_withdrawal_def by (simp_all only: if_False)
  then show ?thesis by simp
next
  case True
  then obtain sd wd where sd: "signup_date c = Some sd" and wd: "withdrawal_date c = Some wd"
    by (auto simp: truthy_def split: option.splits)
  have "parse_timestamp_bonus now1 fromiso sd = parse_timestamp_bonus now2 fromiso sd"
    "parse_timestamp_bonus now1 fromiso wd = parse_timestamp_bonus now2 fromiso wd"
    using assms True sd wd by (auto simp: dates_parse_def intro: parse_clock_independent)
  then show ?thesis by (simp add: days_to_withdrawal_def sd wd)
qed

lemma quality_clock_independent:
  assumes "dates_parse fromiso c"
  shows "calculate_client_quality_score now1 fromiso c = calculate_client_quality_score now2 fromiso c"
  by (simp only: calculate_client_quality_score_def
        days_to_withdrawal_clock_independent[OF assms, where ?now1.0 = now1 and ?now2.0 = now2])

lemma pattern_clock_independent:
  assumes "list_all (dates_parse fromiso) clients"
  shows "detect_bonus_abuse_pattern now1 fromiso clients t = detect_bonus_abuse_pattern now2 fromiso clients t"
proof -
  have q: "\<And>c. c \<in> set clients \<Longrightarrow>
      calculate_client_quality_score now1 fromiso c = calculate_client_quality_score now2 fromiso c"
    using assms by (simp add: list_all_iff quality_clock_independent)
  have f: "filter (\<lambda>c. is_suspicious (calculate_client_quality_score now1 fromiso c)) clients
         = filter (\<lambda>c. is_suspicious (calculate_client_quality_score now2 fromiso c)) clients"
    by (rule filter_cong) (simp_all add: q)
  have me: "map (suspicious_entry now1 fromiso) (filter (\<lambda>c. is_suspicious (calculate_client_quality_score now2 fromiso c)) clients)
      = map (suspicious_entry now2 fromiso) (filter (\<lambda>c. is_suspicious (calculate_client_quality_score now2 fromiso c)) clients)"
    by (rule map_cong) (simp_all add: suspicious_entry_def q)
  show ?thesis by (simp only: detect_bonus_abuse_pattern_def f me)
qed

lemma analyze_partner_clock_independent:
  assumes "list_all (dates_parse fromiso) clients"
  shows "analyze_partner now1 fromiso (group_by_partner clients) p
       = analyze_partner now2 fromiso (group_by_partner clients) p"
proof -
  let ?rc = "referred_clients_of (group_by_partner clients) (partner_id p)"
  have q: "\<And>c. c \<in> set ?rc \<Longrightarrow>
      calculate_client_quality_score now1 fromiso c = calculate_client_quality_score now2 fromiso c"
    using assms referred_clients_subset[of clients "partner_id p"]
    by (auto simp: list_all_iff intro: quality_clock_independent)
  have f: "filter (\<lambda>c. is_suspicious (calculate_client_quality_score now1 fromiso c)) ?rc
         = filter (\<lambda>c. is_suspicious (calculate_client_quality_score now2 fromiso c)) ?rc"
    by (rule filter_cong) (simp_all add: q)
  have m: "map (\<lambda>c. quality_score (calculate_client_quality_score now1 fromiso c)) ?rc
         = map (\<lambda>c. quality_score (calculate_client_quality_score now2 fromiso c)) ?rc"
    by (rule map_cong) (simp_all add: q)
  show ?thesis
    by (simp only: analyze_partner_def Let_def suspicious_count_of_def avg_quality_of_def f m)
qed

text \<open>
  Claim C3, amended. The bonus-abuse report depends on the clock only through date strings
  that fail to parse: when every signup and withdrawal date of every client is absent, empty,
  a \<^verbatim>\<open>datetime\<close> or a string that parses, runs at any two clock readings yield the same report
  (same entries, same order). The other two detectors take no clock reading at all.
\<close>

theorem bonus_report_clock_independent:
  assumes "list_all (dates_parse fromiso) clients"
  shows "detect_bonus_abuse now1 fromiso clients partners = detect_bonus_abuse now2 fromiso clients partners"
proof -
  have ap: "analyze_partner now1 fromiso (group_by_partner clients)
          = analyze_partner now2 fromiso (group_by_partner clients)"
    by (rule ext) (rule analyze_partner_clock_independent[OF assms])
  show ?thesis
    by (simp only: detect_bonus_abuse_def analyze_partner_referral_quality_def ap
          pattern_clock_independent[OF assms, where ?now1.0 = now1 and ?now2.0 = now2])
qed


text \<open>
  With a signup date that does not parse, the withdrawal check compares the withdrawal date
  with the clock: one day before the withdrawal the client is reported, ten days before it is
  not.
\<close>

lemma clock_client_days:
  "days_to_withdrawal clock_late reject_all clock_client = Some 1"
  "days_to_withdrawal clock_early reject_all clock_client = Some 10"
  by (simp_all add: days_to_withdrawal_def truthy_def clock_client_def parse_timestamp_bonus_def
        reject_all_def clock_late_def clock_early_def naive_at_def day_us_def sub_datetime_def days_def)

theorem clock_dependence_counterexample:
  "total_suspicious_clients (detect_bonus_abuse clock_late reject_all [clock_client] []) = 1
   \<and> total_suspicious_clients (detect_bonus_abuse clock_early reject_all [clock_client] []) = 0
   \<and> detect_bonus_abuse clock_late reject_all [clock_client] []
       \<noteq> detect_bonus_abuse clock_early reject_all [clock_client] []"
proof -
  have pen: "spec_total_penalty clock_late reject_all clock_client = 55"
    "spec_total_penalty clock_early reject_all clock_client = 25"
    unfolding spec_total_penalty_def clock_client_days
    by (simp_all add: spec_trade_count_penalty_def
          spec_volume_ratio_penalty_def spec_withdrawal_penalty_def spec_balance_penalty_def
          spec_inactive_penalty_def spec_deposit_penalty_def get_trades_def get_deposit_def
          get_balance_def get_is_active_def clock_client_def mk_trade_def sum_list_replicate)
  have s: "is_suspicious (calculate_client_quality_score clock_late reject_all clock_client)"
    "\<not> is_suspicious (calculate_client_quality_score clock_early reject_all clock_client)"
    using raw_score[of clock_late reject_all clock_client] raw_score[of clock_early reject_all clock_client]
    by (simp_all add: pen)
  have a: "total_suspicious_clients (detect_bonus_abuse clock_late reject_all [clock_client] []) = 1"
    and b: "total_suspicious_clients (detect_bonus_abuse clock_early reject_all [clock_client] []) = 0"
    by (simp_all add: detect_bonus_abuse_def detect_bonus_abuse_pattern_def Let_def s)
  from a b have "detect_bonus_abuse clock_late reject_all [clock_client] []
       \<noteq> detect_bonus_abuse clock_early reject_all [clock_client] []" by auto
  with a b show ?thesis by simp
qed

theorem bonus_report_clock_independent_witness:
  "list_all (dates_parse reject_all) [bonus_example_client, unflagged_client]
   \<and> detect_bonus_abuse clock_late reject_all [bonus_example_client, unflagged_client] [example_partner]
     = detect_bonus_abuse clock_early reject_all [bonus_example_client, unflagged_client] [example_partner]"
proof -
  have h: "list_all (dates_parse reject_all) [bonus_example_client, unflagged_client]"
    by (simp add: dates_parse_def date_parses_def bonus_example_client_def unflagged_client_def)
  from bonus_report_clock_independent[OF h, where ?now1.0 = clock_late and ?now2.0 = clock_early
         and partners = "[example_partner]"] h
  show ?thesis by simp
qed

subsection \<open>The lists of the bonus-abuse report\<close>

lemma sort_desc_sorted: "sorted (rev (map k (sort_desc k xs)))"
  by (simp add: sort_desc_def rev_map)

lemma sort_desc_mset: "mset (sort_desc k xs) = mset xs"
  by (simp add: sort_desc_def)

lemma sorted_take_le_drop:
  assumes "sorted (map k xs)" and "x \<in> set (take n xs)" and "y \<in> set (drop n xs)"
  shows "k x \<le> k y"
proof -
  have "sorted (map k (take n xs) @ map k (drop n xs))"
    using assms(1) by (simp flip: map_append)
  then show ?thesis using assms(2,3) by (auto simp: sorted_append)
qed

lemma analyze_partner_length: "length (analyze_partner now fromiso pcs p) \<le> 1"
  by (simp add: analyze_partner_def Let_def)

lemma length_concat_flags:
  assumes "\<And>x. x \<in> set xs \<Longrightarrow> length (f x) \<le> 1"
  shows "length (concat (map f xs)) = length (filter (\<lambda>x. f x \<noteq> []) xs)"
  using assms
proof (induction xs)
  case Nil
  then show ?case by simp
next
  case (Cons x xs)
  have "length (f x) \<le> 1" using Cons.prems by simp
  then have "length (f x) = (if f x \<noteq> [] then 1 else 0)" by (cases "f x") auto
  then show ?case using Cons by simp
qed

lemma map_of_group_append:
  "map_of (group_append k c m) k' =
     (if k' = k then Some ((case map_of m k of None \<Rightarrow> [] | Some g \<Rightarrow> g) @ [c]) else map_of m k')"
  by (induction m) auto

lemma group_by_partner_snoc:
  "group_by_partner (cs @ [c]) = group_append (referred_by c) c (group_by_partner cs)"
  by (simp add: group_by_partner_def)

lemma referred_clients_filter:
  "referred_clients_of (group_by_partner cs) k = filter (\<lambda>c. referred_by c = k) cs"
proof (induction cs rule: rev_induct)
  case Nil
  then show ?case by (simp add: referred_clients_of_def group_by_partner_def)
next
  case (snoc c cs)
  then show ?case
    by (auto simp: referred_clients_of_def group_by_partner_snoc map_of_group_append
          split: option.splits)
qed

lemma filter_eq_upt: "filter (\<lambda>j. j = i) [0..<n] = (if i < n then [i] else [])"
  by (induction n) auto

lemma numbered_id_inj: "numbered_id j = numbered_id i \<longleftrightarrow> j = i"
proof
  assume "numbered_id j = numbered_id i"
  then have "length (numbered_id j) = length (numbered_id i)" by simp
  then show "j = i" by (simp add: numbered_id_def)
qed simp

lemma numbered_referred:
  assumes "i < n"
  shows "referred_clients_of (group_by_partner (map numbered_client [0..<n])) (numbered_id i)
         = [numbered_client i]"
proof -
  have "filter (\<lambda>c. referred_by c = numbered_id i) (map numbered_client [0..<n])
      = map numbered_client (filter (\<lambda>j. j = i) [0..<n])"
    by (simp add: filter_map comp_def numbered_client_def numbered_id_inj)
  then show ?thesis using assms by (simp add: referred_clients_filter filter_eq_upt)
qed

lemma numbered_client_suspicious:
  "is_suspicious (calculate_client_quality_score now fromiso (numbered_client i))"
proof -
  have "spec_total_penalty now fromiso (numbered_client i) = spec_total_penalty now fromiso bonus_example_client"
    by (simp add: spec_total_penalty_def numbered_client_def get_trades_def get_deposit_def
          get_balance_def get_is_active_def days_to_withdrawal_def)
  then show ?thesis
    using raw_score[of now fromiso "numbered_client i"] bonus_example_penalty[of now fromiso] by simp
qed

lemma numbered_partner_flagged:
  assumes "i < n"
  shows "analyze_partner now fromiso (group_by_partner (map numbered_client [0..<n])) (numbered_partner i) \<noteq> []"
proof -
  have pid: "partner_id (numbered_partner i) = numbered_id i" by (simp add: numbered_partner_def)
  show ?thesis
    by (simp add: analyze_partner_def pid numbered_referred[OF assms] Let_def
          suspicious_count_of_def numbered_client_suspicious)
qed

lemma numbered_partners_all_flagged:
  "length (analyze_partner_referral_quality now fromiso (map numbered_partner [0..<n])
             (map numbered_client [0..<n])) = n"
proof -
  let ?f = "analyze_partner now fromiso (group_by_partner (map numbered_client [0..<n]))"
  have "length (concat (map ?f (map numbered_partner [0..<n])))
      = length (filter (\<lambda>p. ?f p \<noteq> []) (map numbered_partner [0..<n]))"
    by (rule length_concat_flags) (rule analyze_partner_length)
  also have "filter (\<lambda>p. ?f p \<noteq> []) (map numbered_partner [0..<n]) = map numbered_partner [0..<n]"
    by (rule filter_True) (auto simp: numbered_partner_flagged)
  finally show ?thesis by (simp add: analyze_partner_referral_quality_def sort_desc_def)
qed

text \<open>
  Claim C8. The client list of the bonus-abuse report has at most 50 entries and is sorted by
  ascending quality score; it is the first 50 entries of the sorted list of all suspicious
  clients, so no entry left out has a lower score than an entry kept. The partner list is
  sorted by descending suspicious ratio and is not cut: it holds exactly the entries of the
  flagged partners, and for every \<open>n\<close> some snapshot with distinct partner ids yields a partner
  list of length \<open>n\<close>.
\<close>

theorem bonus_report_lists:
  "length (suspicious_clients (detect_bonus_abuse now fromiso clients partners)) \<le> 50
   \<and> sorted (map sc_quality_score (suspicious_clients (detect_bonus_abuse now fromiso clients partners)))
   \<and> suspicious_clients (detect_bonus_abuse now fromiso clients partners)
       = take 50 (detect_bonus_abuse_pattern now fromiso clients 50)
   \<and> sorted (map sc_quality_score (detect_bonus_abuse_pattern now fromiso clients 50))
   \<and> mset (detect_bonus_abuse_pattern now fromiso clients 50)
       = mset (map (suspicious_entry now fromiso)
                (filter (\<lambda>c. is_suspicious (calculate_client_quality_score now fromiso c)) clients))
   \<and> (\<forall>x\<in>set (suspicious_clients (detect_bonus_abuse now fromiso clients partners)).
        \<forall>y\<in>set (drop 50 (detect_bonus_abuse_pattern now fromiso clients 50)).
          sc_quality_score x \<le> sc_quality_score y)
   \<and> sorted (rev (map suspicious_ratio (suspicious_partners (detect_bonus_abuse now fromiso clients partners))))
   \<and> mset (suspicious_partners (detect_bonus_abuse now fromiso clients partners))
       = mset (concat (map (analyze_partner now fromiso (group_by_partner clients)) partners))
   \<and> length (suspicious_partners (detect_bonus_abuse now fromiso clients partners))
       = length (filter (\<lambda>p. analyze_partner now fromiso (group_by_partner clients) p \<noteq> []) partners)
   \<and> (\<exists>clients' partners'. distinct (map partner_id partners')
         \<and> length (suspicious_partners (detect_bonus_abuse now fromiso clients' partners')) = n)"
proof -
  let ?all = "detect_bonus_abuse_pattern now fromiso clients 50"
  let ?r = "detect_bonus_abuse now fromiso clients partners"
  have sc: "suspicious_clients ?r = take 50 ?all"
    and sp: "suspicious_partners ?r = analyze_partner_referral_quality now fromiso partners clients"
    by (simp_all add: detect_bonus_abuse_def Let_def)
  have srt: "sorted (map sc_quality_score ?all)"
    by (simp add: detect_bonus_abuse_pattern_def)
  have c1: "length (suspicious_clients ?r) \<le> 50" by (simp add: sc)
  have c2: "sorted (map sc_quality_score (suspicious_clients ?r))"
    unfolding sc using srt by (simp add: take_map[symmetric] sorted_wrt_take del: take_map)
  have c3: "mset ?all = mset (map (suspicious_entry now fromiso)
                (filter (\<lambda>c. is_suspicious (calculate_client_quality_score now fromiso c)) clients))"
    by (simp add: detect_bonus_abuse_pattern_def)
  have c4: "\<forall>x\<in>set (suspicious_clients ?r). \<forall>y\<in>set (drop 50 ?all). sc_quality_score x \<le> sc_quality_score y"
    unfolding sc using sorted_take_le_drop[OF srt] by blast
  have c5: "sorted (rev (map suspicious_ratio (suspicious_partners ?r)))"
    by (simp add: sp analyze_partner_referral_quality_def sort_desc_sorted)
  have c6: "mset (suspicious_partners ?r)
       = mset (concat (map (analyze_partner now fromiso (group_by_partner clients)) partners))"
    by (simp only: sp analyze_partner_referral_quality_def sort_desc_mset)
  have c7: "length (suspicious_partners ?r)
       = length (filter (\<lambda>p. analyze_partner now fromiso (group_by_partner clients) p \<noteq> []) partners)"
    using length_concat_flags[of partners "analyze_partner now fromiso (group_by_partner clients)"]
      analyze_partner_length
    by (simp add: sp analyze_partner_referral_quality_def sort_desc_def)
  have "distinct (map partner_id (map numbered_partner [0..<n]))"
    by (simp add: distinct_map inj_on_def numbered_partner_def numbered_id_inj comp_def)
  moreover have "length (suspicious_partners (detect_bonus_abuse now fromiso
         (map numbered_client [0..<n]) (map numbered_partner [0..<n]))) = n"
    by (simp add: detect_bonus_abuse_def Let_def numbered_partners_all_flagged)
  ultimately have c8: "\<exists>clients' partners'. distinct (map partner_id partners')
         \<and> length (suspicious_partners (detect_bonus_abuse now fromiso clients' partners')) = n"
    by blast
  from c1 c2 sc srt c3 c4 c5 c6 c7 c8 show ?thesis by blast
qed

lemma report_example_run:
  "map (\<lambda>e. (sc_client_id e, sc_quality_score e))
      (suspicious_clients (detect_bonus_abuse clock_late reject_all report_clients [example_partner]))
     = [(''C1'', 0), (''C2'', 45)]"
  "map (\<lambda>a. (pa_partner_id a, total_referrals a, suspicious_referrals a, suspicious_ratio a))
      (suspicious_partners (detect_bonus_abuse clock_late reject_all report_clients [example_partner]))
     = [(''P1'', 3, 2, 667 / 1000)]"
  by code_simp+

theorem bonus_report_lists_witness:
  "map (\<lambda>e. (sc_client_id e, sc_quality_score e))
      (suspicious_clients (detect_bonus_abuse clock_late reject_all report_clients [example_partner]))
     = [(''C1'', 0), (''C2'', 45)]
   \<and> length (suspicious_clients (detect_bonus_abuse clock_late reject_all report_clients [example_partner])) \<le> 50
   \<and> sorted (map sc_quality_score
        (suspicious_clients (detect_bonus_abuse clock_late reject_all report_clients [example_partner])))
   \<and> sorted (rev (map suspicious_ratio
        (suspicious_partners (detect_bonus_abuse clock_late reject_all report_clients [example_partner]))))
   \<and> length (suspicious_partners (detect_bonus_abuse clock_late reject_all report_clients [example_partner]))
       = length (filter (\<lambda>p. analyze_partner clock_late reject_all (group_by_partner report_clients) p \<noteq> [])
                   [example_partner])"
  using bonus_report_lists[of clock_late reject_all report_clients "[example_partner]" 0]
    report_example_run(1)
  by blast

end
